theory Spec2Isabelle
  imports
    Complex_Main
    "HOL-Library.AList"
    "HOL-Library.List_Lexorder"
    "HOL-Library.Product_Lexorder"
    "HOL-Library.Multiset"
begin

unbundle bit_operations_syntax

section \<open>Python strings\<close>

text \<open>
  A Python \<open>str\<close> is a sequence of Unicode code points, so it is modelled as a list of
  natural numbers: \<open>len\<close>, \<open>strip\<close> and \<open>zfill\<close> count code points, and string
  comparison is lexicographic on code points (the order of \<open>HOL-Library.List_Lexorder\<close>).
  \<open>str\<close> turns an ASCII literal into such a list.
\<close>

type_synonym pystr = "nat list"
type_synonym byte = nat
type_synonym w32 = nat

definition str :: "string \<Rightarrow> pystr" where
  "str cs = map of_char cs"

datatype py_error =
  UnicodeEncodeError | StopIteration | KeyError | ValueError | HTTPError
  | ConnectionError | JSONDecodeError | TypeError | OSError

text \<open>The code points that \<open>str.strip()\<close> removes (those with \<open>str.isspace\<close>).\<close>

definition is_space :: "nat \<Rightarrow> bool" where
  "is_space c \<longleftrightarrow>
     (0x09 \<le> c \<and> c \<le> 0x0D) \<or> (0x1C \<le> c \<and> c \<le> 0x20) \<or> c = 0x85 \<or> c = 0xA0 \<or>
     c = 0x1680 \<or> (0x2000 \<le> c \<and> c \<le> 0x200A) \<or> c = 0x2028 \<or> c = 0x2029 \<or>
     c = 0x202F \<or> c = 0x205F \<or> c = 0x3000"

definition strip :: "pystr \<Rightarrow> pystr" where
  "strip s = rev (dropWhile is_space (rev (dropWhile is_space s)))"

text \<open>
  \<open>str.zfill(width)\<close>: a string of at least \<open>width\<close> code points is returned as it
  is; otherwise zeros are inserted on the left, after a leading sign \<open>+\<close> or \<open>-\<close>.
\<close>

definition zfill :: "nat \<Rightarrow> pystr \<Rightarrow> pystr" where
  "zfill width s =
     (if width \<le> length s then s
      else (case s of
              [] \<Rightarrow> replicate width 0x30
            | c # rest \<Rightarrow>
                if c = 0x2B \<or> c = 0x2D then c # replicate (width - length s) 0x30 @ rest
                else replicate (width - length s) 0x30 @ s))"

text \<open>
  A code point that UTF-8 can encode: a Unicode scalar value. The surrogates
  \<open>U+D800 .. U+DFFF\<close> are code points of a Python \<open>str\<close> that UTF-8 cannot encode; text
  decoded from a UTF-8 file never contains one.
\<close>

definition scalar_value :: "nat \<Rightarrow> bool" where
  "scalar_value c \<longleftrightarrow> c < 0xD800 \<or> (0xE000 \<le> c \<and> c < 0x110000)"

definition unicode_text :: "pystr \<Rightarrow> bool" where
  "unicode_text s = list_all scalar_value s"

text \<open>\<open>str.encode('utf-8')\<close>, which raises \<open>UnicodeEncodeError\<close> on a surrogate.\<close>

fun utf8_char :: "nat \<Rightarrow> py_error + byte list" where
  "utf8_char c =
    (if c < 0x80 then Inr [c]
     else if c < 0x800 then Inr [0xC0 + c div 64, 0x80 + c mod 64]
     else if c < 0x10000 then
       (if 0xD800 \<le> c \<and> c < 0xE000 then Inl UnicodeEncodeError
        else Inr [0xE0 + c div 4096, 0x80 + (c div 64) mod 64, 0x80 + c mod 64])
     else if c < 0x110000 then
       Inr [0xF0 + c div 262144, 0x80 + (c div 4096) mod 64,
            0x80 + (c div 64) mod 64, 0x80 + c mod 64]
     else Inl UnicodeEncodeError)"

fun utf8_encode :: "pystr \<Rightarrow> py_error + byte list" where
  "utf8_encode [] = Inr []"
| "utf8_encode (c # cs) =
    (case utf8_char c of
       Inl e \<Rightarrow> Inl e
     | Inr bs \<Rightarrow> (case utf8_encode cs of Inl e \<Rightarrow> Inl e | Inr rest \<Rightarrow> Inr (bs @ rest)))"

section \<open>SHA-256 (\<open>hashlib.sha256\<close>)\<close>

text \<open>
  The digest of FIPS 180-4 on a list of bytes. A 32-bit word is a natural number below
  \<open>2 ^ 32\<close>; every addition is reduced modulo \<open>2 ^ 32\<close>.
\<close>

definition add32 :: "w32 \<Rightarrow> w32 \<Rightarrow> w32" where
  "add32 x y = (x + y) mod 4294967296"

definition not32 :: "w32 \<Rightarrow> w32" where
  "not32 x = 4294967295 - x mod 4294967296"

definition shr :: "nat \<Rightarrow> w32 \<Rightarrow> w32" where
  "shr n x = x div 2 ^ n"

definition rotr :: "nat \<Rightarrow> w32 \<Rightarrow> w32" where
  "rotr n x = x div 2 ^ n + (x mod 2 ^ n) * 2 ^ (32 - n)"

definition ch :: "w32 \<Rightarrow> w32 \<Rightarrow> w32 \<Rightarrow> w32" where
  "ch x y z = (x AND y) XOR (not32 x AND z)"

definition maj :: "w32 \<Rightarrow> w32 \<Rightarrow> w32 \<Rightarrow> w32" where
  "maj x y z = (x AND y) XOR (x AND z) XOR (y AND z)"

definition bsig0 :: "w32 \<Rightarrow> w32" where
  "bsig0 x = rotr 2 x XOR rotr 13 x XOR rotr 22 x"

definition bsig1 :: "w32 \<Rightarrow> w32" where
  "bsig1 x = rotr 6 x XOR rotr 11 x XOR rotr 25 x"

definition ssig0 :: "w32 \<Rightarrow> w32" where
  "ssig0 x = rotr 7 x XOR rotr 18 x XOR shr 3 x"

definition ssig1 :: "w32 \<Rightarrow> w32" where
  "ssig1 x = rotr 17 x XOR rotr 19 x XOR shr 10 x"

definition sha256_k :: "w32 list" where
  "sha256_k =
   [0x428A2F98, 0x71374491, 0xB5C0FBCF, 0xE9B5DBA5, 0x3956C25B, 0x59F111F1, 0x923F82A4, 0xAB1C5ED5,
    0xD807AA98, 0x12835B01, 0x243185BE, 0x550C7DC3, 0x72BE5D74, 0x80DEB1FE, 0x9BDC06A7, 0xC19BF174,
    0xE49B69C1, 0xEFBE4786, 0x0FC19DC6, 0x240CA1CC, 0x2DE92C6F, 0x4A7484AA, 0x5CB0A9DC, 0x76F988DA,
    0x983E5152, 0xA831C66D, 0xB00327C8, 0xBF597FC7, 0xC6E00BF3, 0xD5A79147, 0x06CA6351, 0x14292967,
    0x27B70A85, 0x2E1B2138, 0x4D2C6DFC, 0x53380D13, 0x650A7354, 0x766A0ABB, 0x81C2C92E, 0x92722C85,
    0xA2BFE8A1, 0xA81A664B, 0xC24B8B70, 0xC76C51A3, 0xD192E819, 0xD6990624, 0xF40E3585, 0x106AA070,
    0x19A4C116, 0x1E376C08, 0x2748774C, 0x34B0BCB5, 0x391C0CB3, 0x4ED8AA4A, 0x5B9CCA4F, 0x682E6FF3,
    0x748F82EE, 0x78A5636F, 0x84C87814, 0x8CC70208, 0x90BEFFFA, 0xA4506CEB, 0xBEF9A3F7, 0xC67178F2]"

type_synonym hstate = "w32 \<times> w32 \<times> w32 \<times> w32 \<times> w32 \<times> w32 \<times> w32 \<times> w32"

definition sha256_init :: hstate where
  "sha256_init = (0x6A09E667, 0xBB67AE85, 0x3C6EF372, 0xA54FF53A,
                  0x510E527F, 0x9B05688C, 0x1F83D9AB, 0x5BE0CD19)"

definition be_bytes64 :: "nat \<Rightarrow> byte list" where
  "be_bytes64 n = map (\<lambda>k. (n div 256 ^ k) mod 256) [7, 6, 5, 4, 3, 2, 1, 0]"

text \<open>Padding: the byte \<open>0x80\<close>, zeros up to 56 modulo 64, the bit length on 8 bytes.\<close>

definition pad :: "byte list \<Rightarrow> byte list" where
  "pad m = m @ [0x80] @ replicate ((119 - length m mod 64) mod 64) 0 @
           be_bytes64 (8 * length m)"

fun words :: "byte list \<Rightarrow> w32 list" where
  "words (a # b # c # d # rest) = (16777216 * a + 65536 * b + 256 * c + d) # words rest"
| "words _ = []"

fun blocks :: "w32 list \<Rightarrow> w32 list list" where
  "blocks (w0 # w1 # w2 # w3 # w4 # w5 # w6 # w7 # w8 # w9 # w10 # w11 # w12 # w13 # w14 # w15 # rest) =
     [w0, w1, w2, w3, w4, w5, w6, w7, w8, w9, w10, w11, w12, w13, w14, w15] # blocks rest"
| "blocks _ = []"

text \<open>
  The message schedule, most recent word first: from \<open>W(t-1), W(t-2), ...\<close> the next word
  is \<open>ssig1 W(t-2) + W(t-7) + ssig0 W(t-15) + W(t-16)\<close>.
\<close>

fun schedule :: "nat \<Rightarrow> w32 list \<Rightarrow> w32 list" where
  "schedule 0 ws = ws"
| "schedule (Suc n) ws =
     schedule n (add32 (add32 (add32 (ssig1 (ws ! 1)) (ws ! 6)) (ssig0 (ws ! 14))) (ws ! 15) # ws)"

fun round :: "hstate \<Rightarrow> w32 \<times> w32 \<Rightarrow> hstate" where
  "round (a, b, c, d, e, f, g, h) (k, w) =
     (let t1 = add32 (add32 (add32 (add32 h (bsig1 e)) (ch e f g)) k) w;
          t2 = add32 (bsig0 a) (maj a b c)
      in (add32 t1 t2, a, b, c, add32 d t1, e, f, g))"

fun add_state :: "hstate \<Rightarrow> hstate \<Rightarrow> hstate" where
  "add_state (a, b, c, d, e, f, g, h) (a', b', c', d', e', f', g', h') =
     (add32 a a', add32 b b', add32 c c', add32 d d',
      add32 e e', add32 f f', add32 g g', add32 h h')"

definition compress :: "hstate \<Rightarrow> w32 list \<Rightarrow> hstate" where
  "compress st block =
     add_state st (foldl round st (zip sha256_k (rev (schedule 48 (rev block)))))"

definition sha256 :: "byte list \<Rightarrow> hstate" where
  "sha256 m = foldl compress sha256_init (blocks (words (pad m)))"

definition hex_digit :: "nat \<Rightarrow> nat" where
  "hex_digit n = str ''0123456789abcdef'' ! (n mod 16)"

definition hex32 :: "w32 \<Rightarrow> pystr" where
  "hex32 w = map (\<lambda>k. hex_digit (w div 16 ^ k)) [7, 6, 5, 4, 3, 2, 1, 0]"

fun hexdigest :: "hstate \<Rightarrow> pystr" where
  "hexdigest (a, b, c, d, e, f, g, h) = concat (map hex32 [a, b, c, d, e, f, g, h])"

section \<open>Identity derivation and date strings (\<open>load_emissions.py\<close>)\<close>

definition generate_external_id :: "pystr \<Rightarrow> pystr \<Rightarrow> pystr \<Rightarrow> py_error + pystr" where
  "generate_external_id key emission_type date =
     (case utf8_encode (key @ str ''_'' @ emission_type @ str ''_'' @ date) of
        Inl e \<Rightarrow> Inl e
      | Inr combined \<Rightarrow> Inr (take 24 (hexdigest (sha256 combined))))"

text \<open>
  \<open>create_date_string\<close>: the body of the \<open>try\<close> is a value; the handler turns any
  exception of the body into \<open>ValueError\<close>.
\<close>

definition create_date_string :: "pystr \<Rightarrow> pystr \<Rightarrow> pystr \<Rightarrow> py_error + pystr" where
  "create_date_string year month day =
     (case (Inr (strip year @ str ''-'' @ zfill 2 (strip month) @ str ''-'' @ zfill 2 (strip day))
              :: py_error + pystr) of
        Inl e \<Rightarrow> Inl ValueError
      | Inr date \<Rightarrow> Inr date)"

section \<open>CSV ingestion (\<open>read_csv_data\<close>, \<open>group_data_by_well\<close>)\<close>

text \<open>
  The input of \<open>read_csv_data\<close> is the sequence of rows that \<open>csv.reader\<close> yields for the
  file, the header row first; each row is a list of cells.
\<close>

record csv_row =
  name :: pystr
  well_key :: pystr
  year :: pystr
  month :: pystr
  day :: pystr
  row_data :: "pystr list"

definition read_row :: "pystr list \<Rightarrow> csv_row" where
  "read_row row =
     \<lparr> name = (if length row > 0 then strip (row ! 0) else []),
       well_key = (if length row > 1 then strip (row ! 1) else []),
       year = (if length row > 2 then strip (row ! 2) else []),
       month = (if length row > 3 then strip (row ! 3) else []),
       day = (if length row > 4 then strip (row ! 4) else []),
       row_data = row \<rparr>"

fun read_rows :: "pystr list list \<Rightarrow> csv_row list" where
  "read_rows [] = []"
| "read_rows (row # rows) =
     (if length row < 21 then read_rows rows else read_row row # read_rows rows)"

text \<open>\<open>next(reader)\<close> raises \<open>StopIteration\<close> when the file has no header row.\<close>

definition read_csv_data :: "pystr list list \<Rightarrow> py_error + csv_row list" where
  "read_csv_data reader =
     (case reader of [] \<Rightarrow> Inl StopIteration | headers # rows \<Rightarrow> Inr (read_rows rows))"

text \<open>
  A Python \<open>dict\<close> keeps its keys in insertion order: it is an association list, and
  \<open>d[k] = v\<close> is \<open>AList.update\<close> (the value is replaced in place, or the pair is added at
  the end).
\<close>

fun group_rows :: "(pystr \<times> csv_row list) list \<Rightarrow> csv_row list \<Rightarrow> (pystr \<times> csv_row list) list" where
  "group_rows grouped [] = grouped"
| "group_rows grouped (row # rows) =
     group_rows
       (if well_key row \<noteq> []
        then AList.update (well_key row)
               ((case map_of grouped (well_key row) of None \<Rightarrow> [] | Some rs \<Rightarrow> rs) @ [row]) grouped
        else grouped)
       rows"

definition group_data_by_well :: "csv_row list \<Rightarrow> (pystr \<times> csv_row list) list" where
  "group_data_by_well data = group_rows [] data"

definition column_maps :: "(pystr \<times> (pystr \<times> nat) list) list" where
  "column_maps =
     [(str ''Flaring'',
         [(str ''volume'', 5), (str ''volume_uom'', 6), (str ''mass'', 7), (str ''mass_uom'', 8)]),
      (str ''ColdVentilation'',
         [(str ''volume'', 9), (str ''volume_uom'', 10), (str ''mass'', 11), (str ''mass_uom'', 12)]),
      (str ''DieselFuel'',
         [(str ''volume'', 13), (str ''volume_uom'', 14), (str ''mass'', 15), (str ''mass_uom'', 16)]),
      (str ''FuelGas'',
         [(str ''volume'', 17), (str ''volume_uom'', 18), (str ''mass'', 19), (str ''mass_uom'', 20)])]"

definition get_emission_type_columns :: "pystr \<Rightarrow> (pystr \<times> nat) list" where
  "get_emission_type_columns emission_type =
     (case map_of column_maps emission_type of None \<Rightarrow> [] | Some m \<Rightarrow> m)"

section \<open>Nodes, relationships and properties\<close>

record metadata =
  units :: pystr
  md_source :: pystr
  assurance_level :: int
  verified_time :: pystr

text \<open>
  The values of a properties dictionary. \<open>'f\<close> is the type of Python floats: the
  result of \<open>float(s)\<close> is a parameter of the model (\<open>pyfloat s = None\<close> when it raises
  \<open>ValueError\<close>).
\<close>

datatype 'f pyval = NoneVal | Str pystr | Num 'f | Meta metadata

record 'f property =
  prop_type :: pystr
  prop_value :: "'f pyval"
  prop_metadata :: "'f pyval option"

record 'f node =
  external_id :: pystr
  node_type :: pystr
  labels :: "pystr list option"
  properties :: "'f property list"

record endpoint =
  ep_type :: pystr
  ep_external_id :: pystr

record relationship =
  source :: endpoint
  target :: endpoint
  rel_type :: pystr

definition startswith :: "pystr \<Rightarrow> pystr \<Rightarrow> bool" where
  "startswith s p \<longleftrightarrow> take (length p) s = p"

definition endswith :: "pystr \<Rightarrow> pystr \<Rightarrow> bool" where
  "endswith s p \<longleftrightarrow> length p \<le> length s \<and> drop (length s - length p) s = p"

fun convert_items :: "(pystr \<times> 'f pyval) list \<Rightarrow> (pystr \<times> 'f pyval) list \<Rightarrow> 'f property list" where
  "convert_items props [] = []"
| "convert_items props ((ptype, pvalue) # items) =
     (if startswith ptype (str ''_'') \<and> endswith ptype (str ''_metadata'')
      then convert_items props items
      else if pvalue \<noteq> NoneVal \<and> pvalue \<noteq> Str []
      then \<lparr> prop_type = ptype, prop_value = pvalue,
             prop_metadata = map_of props (str ''_'' @ ptype @ str ''_metadata'') \<rparr>
           # convert_items props items
      else convert_items props items)"

definition convert_properties_to_array :: "(pystr \<times> 'f pyval) list \<Rightarrow> 'f property list" where
  "convert_properties_to_array props = convert_items props props"

section \<open>The graph builder (\<open>process_emissions_data\<close>, lines 305 to 530)\<close>

record 'f date_entry =
  entry_well_key :: pystr
  entry_emission_type :: pystr
  entry_date :: pystr
  entry_properties :: "(pystr \<times> 'f pyval) list"

record well_rec =
  wi_name :: pystr
  wi_emissions_id :: pystr
  wi_emission_type_ids :: "(pystr \<times> pystr) list"

datatype log_event = VolumeWarning pystr | MassWarning pystr | RowError py_error

record 'f build_state =
  well_info :: "(pystr \<times> well_rec) list"
  emission_type_ids :: "((pystr \<times> pystr) \<times> pystr) list"
  date_entries :: "'f date_entry list"
  printed :: "log_event list"

definition emission_types :: "pystr list" where
  "emission_types = [str ''Flaring'', str ''ColdVentilation'', str ''DieselFuel'', str ''FuelGas'']"

text \<open>\<open>row_data[i].strip() if len(row_data) > i else None\<close>\<close>

definition cell :: "pystr list \<Rightarrow> nat \<Rightarrow> pystr option" where
  "cell rd i = (if length rd > i then Some (strip (rd ! i)) else None)"

text \<open>A value is converted only when the string is truthy (neither \<open>None\<close> nor empty).\<close>

definition to_number :: "(pystr \<Rightarrow> 'f option) \<Rightarrow> pystr option \<Rightarrow> 'f option" where
  "to_number pyfloat s =
     (case s of None \<Rightarrow> None | Some t \<Rightarrow> if t = [] then None else pyfloat t)"

definition conversion_warning ::
  "(pystr \<Rightarrow> 'f option) \<Rightarrow> (pystr \<Rightarrow> log_event) \<Rightarrow> pystr option \<Rightarrow> log_event list" where
  "conversion_warning pyfloat warning s =
     (case s of
        None \<Rightarrow> []
      | Some t \<Rightarrow> if t \<noteq> [] \<and> pyfloat t = None then [warning t] else [])"

definition unit_metadata :: "pystr \<Rightarrow> pystr \<Rightarrow> pystr \<Rightarrow> pystr option \<Rightarrow> (pystr \<times> 'f pyval) list" where
  "unit_metadata key spreadsheet_name vtime uom =
     (case uom of
        None \<Rightarrow> []
      | Some u \<Rightarrow>
          if u = [] then []
          else [(key, Meta \<lparr> units = u, md_source = spreadsheet_name, assurance_level = 3,
                              verified_time = vtime \<rparr>)])"

definition entry_props ::
  "pystr \<Rightarrow> pystr \<Rightarrow> pystr \<Rightarrow> 'f option \<Rightarrow> pystr option \<Rightarrow> 'f option \<Rightarrow> pystr option
     \<Rightarrow> (pystr \<times> 'f pyval) list" where
  "entry_props spreadsheet_name vtime date_str volume volume_uom mass mass_uom =
     [(str ''date'', Str date_str)] @
     (case volume of
        None \<Rightarrow> []
      | Some v \<Rightarrow> (str ''volume'', Num v)
                  # unit_metadata (str ''_volume_metadata'') spreadsheet_name vtime volume_uom) @
     (case mass of
        None \<Rightarrow> []
      | Some m \<Rightarrow> (str ''mass'', Num m)
                  # unit_metadata (str ''_mass_metadata'') spreadsheet_name vtime mass_uom)"

text \<open>
  The body of the \<open>try\<close> of lines 340 to 401 for one well, emission type and row: the date
  entry to append (if any) and the warnings printed, or the exception raised.
\<close>

definition row_body ::
  "(pystr \<Rightarrow> 'f option) \<Rightarrow> pystr \<Rightarrow> pystr \<Rightarrow> pystr \<Rightarrow> pystr \<Rightarrow> (pystr \<times> nat) list \<Rightarrow> csv_row
     \<Rightarrow> py_error + ('f date_entry option \<times> log_event list)" where
  "row_body pyfloat spreadsheet_name vtime wkey emission_type column_map row =
     (case create_date_string (year row) (month row) (day row) of
        Inl e \<Rightarrow> Inl e
      | Inr date_str \<Rightarrow>
         (case (map_of column_map (str ''volume''), map_of column_map (str ''volume_uom''),
                map_of column_map (str ''mass''), map_of column_map (str ''mass_uom'')) of
            (Some vi, Some vui, Some mi, Some mui) \<Rightarrow>
              (let volume_str = cell (row_data row) vi;
                   volume_uom = cell (row_data row) vui;
                   mass_str = cell (row_data row) mi;
                   mass_uom = cell (row_data row) mui;
                   volume = to_number pyfloat volume_str;
                   mass = to_number pyfloat mass_str;
                   warnings = conversion_warning pyfloat VolumeWarning volume_str @
                              conversion_warning pyfloat MassWarning mass_str
               in if volume \<noteq> None \<or> mass \<noteq> None
                  then Inr (Some \<lparr> entry_well_key = wkey, entry_emission_type = emission_type,
                                    entry_date = date_str,
                                    entry_properties =
                                      entry_props spreadsheet_name vtime date_str
                                        volume volume_uom mass mass_uom \<rparr>,
                            warnings)
                  else Inr (None, warnings))
          | _ \<Rightarrow> Inl KeyError))"

text \<open>One iteration of the loop over the rows of a well: the \<open>try\<close> with its handler.\<close>

definition process_row ::
  "(pystr \<Rightarrow> 'f option) \<Rightarrow> pystr \<Rightarrow> pystr \<Rightarrow> pystr \<Rightarrow> pystr \<Rightarrow> (pystr \<times> nat) list
     \<Rightarrow> 'f build_state \<Rightarrow> csv_row \<Rightarrow> 'f build_state" where
  "process_row pyfloat spreadsheet_name vtime wkey emission_type column_map st row =
     (case row_body pyfloat spreadsheet_name vtime wkey emission_type column_map row of
        Inl e \<Rightarrow> st\<lparr> printed := printed st @ [RowError e] \<rparr>
      | Inr (entry, warnings) \<Rightarrow>
          st\<lparr> date_entries := date_entries st @ (case entry of None \<Rightarrow> [] | Some d \<Rightarrow> [d]),
              printed := printed st @ warnings \<rparr>)"

fun process_types ::
  "(pystr \<Rightarrow> 'f option) \<Rightarrow> pystr \<Rightarrow> pystr \<Rightarrow> pystr \<Rightarrow> csv_row list \<Rightarrow> 'f build_state
     \<Rightarrow> pystr list \<Rightarrow> py_error + 'f build_state" where
  "process_types pyfloat spreadsheet_name vtime wkey well_rows st [] = Inr st"
| "process_types pyfloat spreadsheet_name vtime wkey well_rows st (emission_type # ts) =
     (case generate_external_id wkey (str ''emission_type_'' @ emission_type) [] of
        Inl e \<Rightarrow> Inl e
      | Inr emission_type_id \<Rightarrow>
         (case map_of (well_info st) wkey of
            None \<Rightarrow> Inl KeyError
          | Some info \<Rightarrow>
              process_types pyfloat spreadsheet_name vtime wkey well_rows
                (foldl (process_row pyfloat spreadsheet_name vtime wkey emission_type
                          (get_emission_type_columns emission_type))
                   (st\<lparr> well_info :=
                          AList.update wkey
                            (info\<lparr> wi_emission_type_ids :=
                                      AList.update emission_type emission_type_id
                                        (wi_emission_type_ids info) \<rparr>)
                            (well_info st),
                        emission_type_ids :=
                          AList.update (wkey, emission_type) emission_type_id
                            (emission_type_ids st) \<rparr>)
                   well_rows)
                ts))"

fun process_wells ::
  "(pystr \<Rightarrow> 'f option) \<Rightarrow> pystr \<Rightarrow> pystr \<Rightarrow> 'f build_state
     \<Rightarrow> (pystr \<times> csv_row list) list \<Rightarrow> py_error + 'f build_state" where
  "process_wells pyfloat spreadsheet_name vtime st [] = Inr st"
| "process_wells pyfloat spreadsheet_name vtime st ((wkey, well_rows) # wells) =
     (case generate_external_id wkey (str ''emissions'') [] of
        Inl e \<Rightarrow> Inl e
      | Inr emissions_id \<Rightarrow>
         (case process_types pyfloat spreadsheet_name vtime wkey well_rows
                 (st\<lparr> well_info :=
                        AList.update wkey
                          \<lparr> wi_name = (case well_rows of [] \<Rightarrow> wkey | r # _ \<Rightarrow> name r),
                            wi_emissions_id = emissions_id,
                            wi_emission_type_ids = [] \<rparr>
                          (well_info st) \<rparr>)
                 emission_types of
            Inl e \<Rightarrow> Inl e
          | Inr st' \<Rightarrow> process_wells pyfloat spreadsheet_name vtime st' wells))"

text \<open>
  \<open>date_entries.sort(key=..., reverse=True)\<close>: a stable sort in descending order of the
  key \<open>(well_key, emission_type, date)\<close>, tuples and strings compared lexicographically.
  A stable descending sort is the reverse of the stable ascending sort of the reversed
  list.
\<close>

definition entry_key :: "'f date_entry \<Rightarrow> pystr \<times> pystr \<times> pystr" where
  "entry_key d = (entry_well_key d, entry_emission_type d, entry_date d)"

definition sort_entries :: "'f date_entry list \<Rightarrow> 'f date_entry list" where
  "sort_entries ds = rev (sort_key entry_key (rev ds))"

definition well_nodes :: "(pystr \<times> well_rec) list \<Rightarrow> 'f node list" where
  "well_nodes winfo =
     map (\<lambda>(wkey, info).
            \<lparr> external_id = wkey, node_type = str ''Well'', labels = None,
              properties = convert_properties_to_array [(str ''name'', Str (wi_name info))] \<rparr>)
         winfo"

definition emissions_nodes :: "(pystr \<times> well_rec) list \<Rightarrow> 'f node list" where
  "emissions_nodes winfo =
     map (\<lambda>(wkey, info).
            \<lparr> external_id = wi_emissions_id info, node_type = str ''Emissions'', labels = None,
              properties = convert_properties_to_array [(str ''name'', Str (str ''Emissions''))] \<rparr>)
         winfo"

definition emission_type_nodes :: "((pystr \<times> pystr) \<times> pystr) list \<Rightarrow> 'f node list" where
  "emission_type_nodes et_ids =
     map (\<lambda>((wkey, emission_type), eid).
            \<lparr> external_id = eid, node_type = str ''EmissionType'', labels = None,
              properties = convert_properties_to_array [(str ''name'', Str emission_type)] \<rparr>)
         et_ids"

fun reading_nodes :: "'f date_entry list \<Rightarrow> py_error + 'f node list" where
  "reading_nodes [] = Inr []"
| "reading_nodes (d # ds) =
     (case generate_external_id (entry_well_key d) (entry_emission_type d) (entry_date d) of
        Inl e \<Rightarrow> Inl e
      | Inr eid \<Rightarrow>
         (case reading_nodes ds of
            Inl e \<Rightarrow> Inl e
          | Inr ns \<Rightarrow>
              Inr (\<lparr> external_id = eid, node_type = entry_emission_type d,
                     labels = Some [str ''Emission''],
                     properties = convert_properties_to_array (entry_properties d) \<rparr> # ns)))"

definition has_emissions_rels :: "(pystr \<times> well_rec) list \<Rightarrow> relationship list" where
  "has_emissions_rels winfo =
     map (\<lambda>(wkey, info).
            \<lparr> source = \<lparr> ep_type = str ''Well'', ep_external_id = wkey \<rparr>,
              target = \<lparr> ep_type = str ''Emissions'', ep_external_id = wi_emissions_id info \<rparr>,
              rel_type = str ''HAS_EMISSIONS'' \<rparr>)
         winfo"

fun has_type_rels ::
  "(pystr \<times> well_rec) list \<Rightarrow> ((pystr \<times> pystr) \<times> pystr) list \<Rightarrow> py_error + relationship list" where
  "has_type_rels winfo [] = Inr []"
| "has_type_rels winfo (((wkey, emission_type), eid) # rest) =
     (case map_of winfo wkey of
        None \<Rightarrow> Inl KeyError
      | Some info \<Rightarrow>
         (case has_type_rels winfo rest of
            Inl e \<Rightarrow> Inl e
          | Inr rs \<Rightarrow>
              Inr (\<lparr> source = \<lparr> ep_type = str ''Emissions'', ep_external_id = wi_emissions_id info \<rparr>,
                     target = \<lparr> ep_type = str ''EmissionType'', ep_external_id = eid \<rparr>,
                     rel_type = str ''HAS_TYPE'' \<rparr> # rs)))"

text \<open>
  The loop of lines 494 to 530. \<open>current_groups\<close> maps a \<open>(well_key, emission_type)\<close> to the
  ID of the entry processed last for it. Every entry adds exactly one relationship.
\<close>

fun chain_rels ::
  "((pystr \<times> pystr) \<times> pystr) list \<Rightarrow> (pystr \<times> pystr \<rightharpoonup> pystr) \<Rightarrow> 'f date_entry list
     \<Rightarrow> py_error + relationship list" where
  "chain_rels et_ids current_groups [] = Inr []"
| "chain_rels et_ids current_groups (d # ds) =
     (case generate_external_id (entry_well_key d) (entry_emission_type d) (entry_date d) of
        Inl e \<Rightarrow> Inl e
      | Inr date_node_id \<Rightarrow>
         (case current_groups (entry_well_key d, entry_emission_type d) of
            None \<Rightarrow>
              (case map_of et_ids (entry_well_key d, entry_emission_type d) of
                 None \<Rightarrow> Inl KeyError
               | Some emission_type_id \<Rightarrow>
                  (case chain_rels et_ids
                          (current_groups((entry_well_key d, entry_emission_type d) \<mapsto> date_node_id))
                          ds of
                     Inl e \<Rightarrow> Inl e
                   | Inr rs \<Rightarrow>
                       Inr (\<lparr> source = \<lparr> ep_type = str ''EmissionType'',
                                         ep_external_id = emission_type_id \<rparr>,
                              target = \<lparr> ep_type = entry_emission_type d,
                                         ep_external_id = date_node_id \<rparr>,
                              rel_type = str ''HAS_DATA'' \<rparr> # rs)))
          | Some previous_node_id \<Rightarrow>
              (case chain_rels et_ids
                      (current_groups((entry_well_key d, entry_emission_type d) \<mapsto> date_node_id))
                      ds of
                 Inl e \<Rightarrow> Inl e
               | Inr rs \<Rightarrow>
                   Inr (\<lparr> source = \<lparr> ep_type = entry_emission_type d,
                                     ep_external_id = previous_node_id \<rparr>,
                          target = \<lparr> ep_type = entry_emission_type d,
                                     ep_external_id = date_node_id \<rparr>,
                          rel_type = str ''NEXT_DATE'' \<rparr> # rs))))"

definition initial_state :: "'f build_state" where
  "initial_state = \<lparr> well_info = [], emission_type_ids = [], date_entries = [], printed = [] \<rparr>"

text \<open>
  The state after the loop of lines 323 to 404 and the sort of line 408, from the rows of
  \<open>csv.reader\<close>.
\<close>

definition collect :: 
  "(pystr \<Rightarrow> 'f option) \<Rightarrow> pystr \<Rightarrow> pystr \<Rightarrow> pystr list list \<Rightarrow> py_error + 'f build_state" where
  "collect pyfloat spreadsheet_name vtime reader =
     (case read_csv_data reader of
        Inl e \<Rightarrow> Inl e
      | Inr csv_data \<Rightarrow>
         (case process_wells pyfloat spreadsheet_name vtime initial_state
                 (group_data_by_well csv_data) of
            Inl e \<Rightarrow> Inl e
          | Inr st \<Rightarrow> Inr (st\<lparr> date_entries := sort_entries (date_entries st) \<rparr>)))"

definition build_nodes :: "'f build_state \<Rightarrow> py_error + 'f node list" where
  "build_nodes st =
     (case reading_nodes (date_entries st) of
        Inl e \<Rightarrow> Inl e
      | Inr rn \<Rightarrow>
          Inr (well_nodes (well_info st) @ emissions_nodes (well_info st) @
               emission_type_nodes (emission_type_ids st) @ rn))"

definition build_relationships :: "'f build_state \<Rightarrow> py_error + relationship list" where
  "build_relationships st =
     (case has_type_rels (well_info st) (emission_type_ids st) of
        Inl e \<Rightarrow> Inl e
      | Inr ht \<Rightarrow>
         (case chain_rels (emission_type_ids st) Map.empty (date_entries st) of
            Inl e \<Rightarrow> Inl e
          | Inr cr \<Rightarrow> Inr (has_emissions_rels (well_info st) @ ht @ cr)))"

text \<open>\<open>all_nodes\<close> and \<open>all_relationships\<close> as they stand at line 532.\<close>

definition build_graph ::
  "(pystr \<Rightarrow> 'f option) \<Rightarrow> pystr \<Rightarrow> pystr \<Rightarrow> pystr list list
     \<Rightarrow> py_error + ('f node list \<times> relationship list)" where
  "build_graph pyfloat spreadsheet_name vtime reader =
     (case collect pyfloat spreadsheet_name vtime reader of
        Inl e \<Rightarrow> Inl e
      | Inr st \<Rightarrow>
         (case build_nodes st of
            Inl e \<Rightarrow> Inl e
          | Inr all_nodes \<Rightarrow>
             (case build_relationships st of
                Inl e \<Rightarrow> Inl e
              | Inr all_relationships \<Rightarrow> Inr (all_nodes, all_relationships))))"

section \<open>JSON documents and HTTP responses\<close>

text \<open>
  A JSON document as \<open>json.load\<close> returns it: an object is a \<open>dict\<close> (an association list
  with distinct keys, in insertion order), an array a \<open>list\<close>.
\<close>

datatype json =
  JNull | JBool bool | JNum rat | JStr pystr | JArr "json list" | JObj "(pystr \<times> json) list"

text \<open>
  What \<open>requests.post\<close> returns: the status code, and the body as \<open>response.json()\<close>
  decodes it (\<open>None\<close> when it raises). The network is a parameter: a function from the
  request to the response, or to the exception that \<open>requests.post\<close> raises.
\<close>

record response =
  status_code :: int
  body :: "json option"

text \<open>\<open>Response.raise_for_status\<close> raises \<open>HTTPError\<close> for a status from 400 to 599.\<close>

definition raise_for_status :: "response \<Rightarrow> py_error + unit" where
  "raise_for_status r =
     (if 400 \<le> status_code r \<and> status_code r < 600 then Inl HTTPError else Inr ())"

section \<open>The batch dispatcher (\<open>load_emissions.py\<close>)\<close>

datatype 'f request = PostNodes "'f node list" | PostRelationships "relationship list"

text \<open>
  \<open>create_nodes_batch\<close> and \<open>create_relationships_batch\<close>: the result or the exception
  (the handler prints and re-raises), and the requests sent. In debug mode nothing is
  sent.
\<close>

definition create_nodes_batch ::
  "bool \<Rightarrow> ('f request \<Rightarrow> py_error + response) \<Rightarrow> 'f node list
     \<Rightarrow> (py_error + json) \<times> 'f request list" where
  "create_nodes_batch debug_mode post nodes =
     (if debug_mode
      then (Inr (JObj [(str ''status'', JStr (str ''debug'')),
                       (str ''nodes_processed'', JNum (of_nat (length nodes)))]), [])
      else ((case post (PostNodes nodes) of
               Inl e \<Rightarrow> Inl e
             | Inr r \<Rightarrow>
                (case raise_for_status r of
                   Inl e \<Rightarrow> Inl e
                 | Inr _ \<Rightarrow> (case body r of None \<Rightarrow> Inl JSONDecodeError | Some result \<Rightarrow> Inr result))),
            [PostNodes nodes]))"

definition create_relationships_batch ::
  "bool \<Rightarrow> ('f request \<Rightarrow> py_error + response) \<Rightarrow> relationship list
     \<Rightarrow> (py_error + json) \<times> 'f request list" where
  "create_relationships_batch debug_mode post relationships =
     (if debug_mode
      then (Inr (JObj [(str ''status'', JStr (str ''debug'')),
                       (str ''relationships_processed'', JNum (of_nat (length relationships)))]), [])
      else ((case post (PostRelationships relationships) of
               Inl e \<Rightarrow> Inl e
             | Inr r \<Rightarrow>
                (case raise_for_status r of
                   Inl e \<Rightarrow> Inl e
                 | Inr _ \<Rightarrow> (case body r of None \<Rightarrow> Inl JSONDecodeError | Some result \<Rightarrow> Inr result))),
            [PostRelationships relationships]))"

text \<open>
  A batch with its \<open>batch_type\<close>. \<open>sink\<close> is the call that \<open>process_batch\<close> makes for the
  batch type; \<open>process_batch\<close> catches its exception and returns
  \<open>(batch_num, success, message)\<close>, the message of a failure carrying the exception.
\<close>

datatype 'f batch = NodesBatch "'f node list" | RelationshipsBatch "relationship list"

type_synonym batch_result = "nat \<times> bool \<times> py_error option"

definition sink ::
  "bool \<Rightarrow> ('f request \<Rightarrow> py_error + response) \<Rightarrow> 'f batch
     \<Rightarrow> (py_error + json) \<times> 'f request list" where
  "sink debug_mode post batch =
     (case batch of
        NodesBatch nodes \<Rightarrow> create_nodes_batch debug_mode post nodes
      | RelationshipsBatch rels \<Rightarrow> create_relationships_batch debug_mode post rels)"

definition process_batch ::
  "bool \<Rightarrow> ('f request \<Rightarrow> py_error + response) \<Rightarrow> nat \<Rightarrow> nat \<Rightarrow> 'f batch
     \<Rightarrow> batch_result \<times> 'f request list" where
  "process_batch debug_mode post batch_num total_batches batch =
     (case sink debug_mode post batch of
        (Inr result, sent) \<Rightarrow> ((batch_num, True, None), sent)
      | (Inl e, sent) \<Rightarrow> ((batch_num, False, Some e), sent))"

text \<open>
  The batches of lines 552 to 557: \<open>range(0, total, batch_size)\<close> raises \<open>ValueError\<close> for
  a step of zero and is empty for a negative step.
\<close>

definition make_batches :: "int \<Rightarrow> 'a list \<Rightarrow> py_error + (nat \<times> nat \<times> 'a list) list" where
  "make_batches batch_size items =
     (if batch_size = 0 then Inl ValueError
      else if batch_size < 0 then Inr []
      else Inr (map (\<lambda>k. (k + 1,
                           (length items + nat batch_size - 1) div nat batch_size,
                           take (nat batch_size) (drop (k * nat batch_size) items)))
                  [0..<(length items + nat batch_size - 1) div nat batch_size]))"

text \<open>The loop over the completed futures: it counts.\<close>

fun tally :: "nat \<times> nat \<Rightarrow> batch_result list \<Rightarrow> nat \<times> nat" where
  "tally (completed, failed) [] = (completed, failed)"
| "tally (completed, failed) ((batch_num, success, message) # rest) =
     (if success then tally (completed + 1, failed) rest
      else tally (completed, failed + 1) rest)"

text \<open>
  One dispatch round (lines 546 to 586, and 590 to 630). Every batch is submitted to the
  pool before any result is read; \<open>net n\<close> is the network as the worker of batch \<open>n\<close>
  meets it, and \<open>as_completed\<close> the order in which the futures complete. The pool
  raises \<open>ValueError\<close> when \<open>max_workers\<close> is not positive. The result is the tally
  printed (none when there is nothing to send) and the requests sent.
\<close>

definition dispatch_round ::
  "bool \<Rightarrow> int \<Rightarrow> int \<Rightarrow> (nat \<Rightarrow> 'f request \<Rightarrow> py_error + response)
     \<Rightarrow> (batch_result list \<Rightarrow> batch_result list) \<Rightarrow> ('a list \<Rightarrow> 'f batch) \<Rightarrow> 'a list
     \<Rightarrow> py_error + ((nat \<times> nat) option \<times> 'f request list)" where
  "dispatch_round debug_mode batch_size max_threads net as_completed batch_type items =
     (if items = [] then Inr (None, [])
      else
        (case make_batches batch_size items of
           Inl e \<Rightarrow> Inl e
         | Inr batches \<Rightarrow>
             if min max_threads (int (length batches)) \<le> 0 then Inl ValueError
             else
               (let outcomes =
                      map (\<lambda>(batch_num, total_batches, batch).
                             process_batch debug_mode (net batch_num) batch_num total_batches
                               (batch_type batch))
                          batches
                in Inr (Some (tally (0, 0) (as_completed (map fst outcomes))),
                        concat (map snd outcomes)))))"

text \<open>
  \<open>process_emissions_data\<close>: the graph is built, then the nodes are dispatched, then the
  relationships. \<open>spreadsheet_name\<close> is the base name of the path and \<open>vtime\<close> the time
  stamp taken at the start. The result holds the two tallies and the requests sent; an
  exception leaves the function.
\<close>

definition process_emissions_data ::
  "(pystr \<Rightarrow> 'f option) \<Rightarrow> pystr \<Rightarrow> pystr \<Rightarrow> bool \<Rightarrow> int \<Rightarrow> int
     \<Rightarrow> (nat \<Rightarrow> 'f request \<Rightarrow> py_error + response) \<Rightarrow> (nat \<Rightarrow> 'f request \<Rightarrow> py_error + response)
     \<Rightarrow> (batch_result list \<Rightarrow> batch_result list) \<Rightarrow> pystr list list
     \<Rightarrow> py_error + ((nat \<times> nat) option \<times> (nat \<times> nat) option \<times> 'f request list)" where
  "process_emissions_data pyfloat spreadsheet_name vtime debug_mode batch_size max_threads
       net_nodes net_relationships as_completed reader =
     (case build_graph pyfloat spreadsheet_name vtime reader of
        Inl e \<Rightarrow> Inl e
      | Inr (all_nodes, all_relationships) \<Rightarrow>
         (case dispatch_round debug_mode batch_size max_threads net_nodes as_completed
                 NodesBatch all_nodes of
            Inl e \<Rightarrow> Inl e
          | Inr (node_tally, sent_nodes) \<Rightarrow>
             (case dispatch_round debug_mode batch_size max_threads net_relationships as_completed
                     RelationshipsBatch all_relationships of
                Inl e \<Rightarrow> Inl e
              | Inr (relationship_tally, sent_relationships) \<Rightarrow>
                  Inr (node_tally, relationship_tally, sent_nodes @ sent_relationships))))"

section \<open>The replay tool (\<open>post_nodes_rels.py\<close>)\<close>

datatype data_type = Nodes | Relationships

definition has_key :: "(pystr \<times> json) list \<Rightarrow> pystr \<Rightarrow> bool" where
  "has_key d k \<longleftrightarrow> map_of d k \<noteq> None"

definition is_list :: "json option \<Rightarrow> bool" where
  "is_list j = (case j of Some (JArr _) \<Rightarrow> True | _ \<Rightarrow> False)"

fun detect_type :: "json \<Rightarrow> data_type option" where
  "detect_type (JObj d) =
     (if has_key d (str ''nodes'') \<and> is_list (map_of d (str ''nodes'')) then Some Nodes
      else if has_key d (str ''external_id'') \<and> has_key d (str ''type'') then Some Nodes
      else None)"
| "detect_type (JArr []) = None"
| "detect_type (JArr (JObj first_item # rest)) =
     (if has_key first_item (str ''external_id'') \<and> has_key first_item (str ''type'') \<and>
         has_key first_item (str ''properties'')
      then Some Nodes
      else if has_key first_item (str ''source'') \<and> has_key first_item (str ''target'') \<and>
              has_key first_item (str ''type'')
      then Some Relationships
      else None)"
| "detect_type _ = None"

datatype replay_request = ReplayNodes "json list" | ReplayRelationships json

definition post_nodes ::
  "(replay_request \<Rightarrow> py_error + response) \<Rightarrow> json list \<Rightarrow> (py_error + json) \<times> replay_request list" where
  "post_nodes post nodes =
     ((case post (ReplayNodes nodes) of
         Inl e \<Rightarrow> Inl e
       | Inr r \<Rightarrow>
          (case (if status_code r \<noteq> 200 \<and> status_code r \<noteq> 201 then raise_for_status r else Inr ()) of
             Inl e \<Rightarrow> Inl e
           | Inr _ \<Rightarrow> (case body r of None \<Rightarrow> Inl JSONDecodeError | Some result \<Rightarrow> Inr result))),
      [ReplayNodes nodes])"

text \<open>\<open>len(x)\<close> for a JSON value: \<open>TypeError\<close> for \<open>None\<close>, booleans and numbers.\<close>

definition json_len :: "json \<Rightarrow> py_error + nat" where
  "json_len j =
     (case j of
        JStr s \<Rightarrow> Inr (length s)
      | JArr xs \<Rightarrow> Inr (length xs)
      | JObj d \<Rightarrow> Inr (length d)
      | _ \<Rightarrow> Inl TypeError)"

definition relationship_count :: "json \<Rightarrow> py_error + nat" where
  "relationship_count payload =
     (case payload of
        JObj d \<Rightarrow> (case map_of d (str ''relationships'') of Some v \<Rightarrow> json_len v | None \<Rightarrow> Inr 1)
      | JArr xs \<Rightarrow> Inr (length xs)
      | _ \<Rightarrow> Inr 1)"

definition post_relationships ::
  "(replay_request \<Rightarrow> py_error + response) \<Rightarrow> json \<Rightarrow> (py_error + json) \<times> replay_request list" where
  "post_relationships post payload =
     (case relationship_count payload of
        Inl e \<Rightarrow> (Inl e, [])
      | Inr cnt \<Rightarrow>
          ((case post (ReplayRelationships payload) of
              Inl e \<Rightarrow> Inl e
            | Inr r \<Rightarrow>
               (case (if status_code r \<noteq> 200 \<and> status_code r \<noteq> 201 then raise_for_status r else Inr ()) of
                  Inl e \<Rightarrow> Inl e
                | Inr _ \<Rightarrow> (case body r of None \<Rightarrow> Inl JSONDecodeError | Some result \<Rightarrow> Inr result))),
           [ReplayRelationships payload]))"

text \<open>The loop that unwraps \<open>{"nodes": ...}\<close>; it ends because a document is finite.\<close>

function unwrap_nodes :: "json \<Rightarrow> json" where
  "unwrap_nodes items =
     (case items of
        JObj d \<Rightarrow> (case map_of d (str ''nodes'') of Some inner \<Rightarrow> unwrap_nodes inner | None \<Rightarrow> items)
      | _ \<Rightarrow> items)"
  by pat_completeness auto
termination
proof (relation "measure size")
  show "wf (measure size)" by simp
next
  fix items :: json and d :: "(pystr \<times> json) list" and inner
  assume "items = JObj d" and m: "map_of d (str ''nodes'') = Some inner"
  from m have "(str ''nodes'', inner) \<in> set d" by (rule map_of_SomeD)
  then have "size inner < size (JObj d)"
    by (induction d) (auto simp: less_Suc_eq_le)
  with \<open>items = JObj d\<close> show "(inner, items) \<in> measure size" by simp
qed

definition truthy :: "json \<Rightarrow> bool" where
  "truthy j =
     (case j of
        JNull \<Rightarrow> False
      | JBool b \<Rightarrow> b
      | JNum n \<Rightarrow> n \<noteq> 0
      | JStr s \<Rightarrow> s \<noteq> []
      | JArr xs \<Rightarrow> xs \<noteq> []
      | JObj d \<Rightarrow> d \<noteq> [])"

definition node_items :: "json \<Rightarrow> json list" where
  "node_items data =
     (case unwrap_nodes data of
        JArr xs \<Rightarrow> xs
      | items \<Rightarrow> if truthy items then [items] else [])"

text \<open>
  \<open>main\<close>: the environment is the configuration, whether the file exists, what
  \<open>json.load\<close> returns or raises, \<open>--type\<close>, and the network. The result is the exit code and
  the requests sent.
\<close>

record replay_env =
  indykite_token :: "pystr option"
  indykite_host :: pystr
  file_exists :: bool
  loaded :: "py_error + json"
  explicit_type :: "data_type option"
  network :: "replay_request \<Rightarrow> py_error + response"

definition main :: "replay_env \<Rightarrow> int \<times> replay_request list" where
  "main env =
     (if indykite_token env = None \<or> indykite_token env = Some [] then (1, [])
      else if indykite_host env = [] then (1, [])
      else if \<not> file_exists env then (1, [])
      else
        (case loaded env of
           Inl e \<Rightarrow> (1, [])
         | Inr data \<Rightarrow>
            (case (case explicit_type env of Some t \<Rightarrow> Some t | None \<Rightarrow> detect_type data) of
               None \<Rightarrow> (1, [])
             | Some Nodes \<Rightarrow>
                 (case post_nodes (network env) (node_items data) of
                    (Inr result, sent) \<Rightarrow> (0, sent)
                  | (Inl e, sent) \<Rightarrow> (1, sent))
             | Some Relationships \<Rightarrow>
                 (case post_relationships (network env) data of
                    (Inr result, sent) \<Rightarrow>
                      (case relationship_count data of Inr cnt \<Rightarrow> (0, sent) | Inl e \<Rightarrow> (1, sent))
                  | (Inl e, sent) \<Rightarrow> (1, sent)))))"

section \<open>Notions used in the statements\<close>

text \<open>
  \<open>derive\<close> is the ID that \<open>generate_external_id\<close> returns (the empty string where it
  raises). A row, a date entry or a CSV input is text when its strings hold Unicode scalar
  values only, as every string decoded from a UTF-8 file does.
\<close>

definition derive :: "pystr \<Rightarrow> pystr \<Rightarrow> pystr \<Rightarrow> pystr" where
  "derive key category date =
     (case generate_external_id key category date of Inr i \<Rightarrow> i | Inl e \<Rightarrow> [])"

definition date_string :: "csv_row \<Rightarrow> pystr" where
  "date_string row =
     strip (year row) @ str ''-'' @ zfill 2 (strip (month row)) @ str ''-'' @ zfill 2 (strip (day row))"

definition row_text :: "csv_row \<Rightarrow> bool" where
  "row_text row \<longleftrightarrow>
     unicode_text (well_key row) \<and> unicode_text (year row) \<and> unicode_text (month row) \<and>
     unicode_text (day row)"

definition csv_text :: "pystr list list \<Rightarrow> bool" where
  "csv_text reader = list_all (list_all unicode_text) reader"

definition entry_text :: "'f date_entry \<Rightarrow> bool" where
  "entry_text d \<longleftrightarrow>
     unicode_text (entry_well_key d) \<and> unicode_text (entry_emission_type d) \<and>
     unicode_text (entry_date d)"

text \<open>
  The loops of the builder in closed form: the date entries of one row, of one well; the
  name and Emissions ID of a well, the IDs of its four emission types; the well keys in
  the order of first encounter; the sorted date entries of an input.
\<close>

definition row_entry ::
  "(pystr \<Rightarrow> 'f option) \<Rightarrow> pystr \<Rightarrow> pystr \<Rightarrow> pystr \<Rightarrow> pystr \<Rightarrow> csv_row \<Rightarrow> 'f date_entry list" where
  "row_entry pyfloat spreadsheet_name vtime wkey emission_type row =
     (case row_body pyfloat spreadsheet_name vtime wkey emission_type
             (get_emission_type_columns emission_type) row of
        Inr (Some d, warnings) \<Rightarrow> [d]
      | _ \<Rightarrow> [])"

definition well_entries ::
  "(pystr \<Rightarrow> 'f option) \<Rightarrow> pystr \<Rightarrow> pystr \<Rightarrow> pystr \<times> csv_row list \<Rightarrow> 'f date_entry list" where
  "well_entries pyfloat spreadsheet_name vtime wr =
     concat (map (\<lambda>t. concat (map (row_entry pyfloat spreadsheet_name vtime (fst wr) t) (snd wr)))
               emission_types)"

definition well_core :: "pystr \<times> csv_row list \<Rightarrow> pystr \<times> pystr \<times> pystr" where
  "well_core wr =
     (fst wr, (case snd wr of [] \<Rightarrow> fst wr | r # _ \<Rightarrow> name r), derive (fst wr) (str ''emissions'') [])"

definition well_type_ids :: "pystr \<times> csv_row list \<Rightarrow> ((pystr \<times> pystr) \<times> pystr) list" where
  "well_type_ids wr =
     map (\<lambda>t. ((fst wr, t), derive (fst wr) (str ''emission_type_'' @ t) [])) emission_types"

definition info_core :: "(pystr \<times> well_rec) list \<Rightarrow> (pystr \<times> pystr \<times> pystr) list" where
  "info_core winfo = map (\<lambda>(w, info). (w, wi_name info, wi_emissions_id info)) winfo"

definition wells :: "pystr list list \<Rightarrow> pystr list" where
  "wells rows = map fst (group_data_by_well (read_rows rows))"

definition surviving_entries ::
  "(pystr \<Rightarrow> 'f option) \<Rightarrow> pystr \<Rightarrow> pystr \<Rightarrow> pystr list list \<Rightarrow> 'f date_entry list" where
  "surviving_entries pyfloat spreadsheet_name vtime reader =
     (case collect pyfloat spreadsheet_name vtime reader of
        Inr st \<Rightarrow> date_entries st
      | Inl e \<Rightarrow> [])"

text \<open>The nodes and relationships that the builder emits, one by one.\<close>

definition well_node :: "pystr \<times> pystr \<times> pystr \<Rightarrow> 'f node" where
  "well_node c =
     \<lparr> external_id = fst c, node_type = str ''Well'', labels = None,
       properties = convert_properties_to_array [(str ''name'', Str (fst (snd c)))] \<rparr>"

definition emissions_node :: "pystr \<times> pystr \<times> pystr \<Rightarrow> 'f node" where
  "emissions_node c =
     \<lparr> external_id = snd (snd c), node_type = str ''Emissions'', labels = None,
       properties = convert_properties_to_array [(str ''name'', Str (str ''Emissions''))] \<rparr>"

definition emission_type_node :: "(pystr \<times> pystr) \<times> pystr \<Rightarrow> 'f node" where
  "emission_type_node ke =
     \<lparr> external_id = snd ke, node_type = str ''EmissionType'', labels = None,
       properties = convert_properties_to_array [(str ''name'', Str (snd (fst ke)))] \<rparr>"

definition reading_node :: "'f date_entry \<Rightarrow> 'f node" where
  "reading_node d =
     \<lparr> external_id = derive (entry_well_key d) (entry_emission_type d) (entry_date d),
       node_type = entry_emission_type d, labels = Some [str ''Emission''],
       properties = convert_properties_to_array (entry_properties d) \<rparr>"

definition has_emissions_rel :: "pystr \<times> pystr \<times> pystr \<Rightarrow> relationship" where
  "has_emissions_rel c =
     \<lparr> source = \<lparr> ep_type = str ''Well'', ep_external_id = fst c \<rparr>,
       target = \<lparr> ep_type = str ''Emissions'', ep_external_id = snd (snd c) \<rparr>,
       rel_type = str ''HAS_EMISSIONS'' \<rparr>"

definition has_type_rel :: "(pystr \<times> pystr) \<times> pystr \<Rightarrow> relationship" where
  "has_type_rel ke =
     \<lparr> source = \<lparr> ep_type = str ''Emissions'',
                  ep_external_id = derive (fst (fst ke)) (str ''emissions'') [] \<rparr>,
       target = \<lparr> ep_type = str ''EmissionType'', ep_external_id = snd ke \<rparr>,
       rel_type = str ''HAS_TYPE'' \<rparr>"

definition entry_id :: "'f date_entry \<Rightarrow> pystr" where
  "entry_id d = derive (entry_well_key d) (entry_emission_type d) (entry_date d)"

definition has_data_rel :: "pystr \<Rightarrow> pystr \<Rightarrow> pystr \<Rightarrow> relationship" where
  "has_data_rel t et_id i =
     \<lparr> source = \<lparr> ep_type = str ''EmissionType'', ep_external_id = et_id \<rparr>,
       target = \<lparr> ep_type = t, ep_external_id = i \<rparr>,
       rel_type = str ''HAS_DATA'' \<rparr>"

definition next_date_rel :: "pystr \<Rightarrow> pystr \<Rightarrow> pystr \<Rightarrow> relationship" where
  "next_date_rel t p i =
     \<lparr> source = \<lparr> ep_type = t, ep_external_id = p \<rparr>,
       target = \<lparr> ep_type = t, ep_external_id = i \<rparr>,
       rel_type = str ''NEXT_DATE'' \<rparr>"

fun next_date_rels :: "pystr \<Rightarrow> pystr \<Rightarrow> pystr list \<Rightarrow> relationship list" where
  "next_date_rels t p [] = []"
| "next_date_rels t p (i # ids) = next_date_rel t p i # next_date_rels t i ids"

definition chain_of :: "pystr \<Rightarrow> pystr \<Rightarrow> pystr option \<Rightarrow> pystr list \<Rightarrow> relationship list" where
  "chain_of t et_id prev ids =
     (case prev of
        Some p \<Rightarrow> next_date_rels t p ids
      | None \<Rightarrow> (case ids of [] \<Rightarrow> [] | i # rest \<Rightarrow> has_data_rel t et_id i # next_date_rels t i rest))"

definition in_group :: "pystr \<Rightarrow> pystr \<Rightarrow> 'f date_entry \<Rightarrow> bool" where
  "in_group w t d \<longleftrightarrow> entry_well_key d = w \<and> entry_emission_type d = t"

text \<open>The request of a batch; a batch whose sink call returns.\<close>

definition request_of :: "'f batch \<Rightarrow> 'f request" where
  "request_of batch =
     (case batch of NodesBatch nodes \<Rightarrow> PostNodes nodes | RelationshipsBatch rels \<Rightarrow> PostRelationships rels)"

definition batch_ok ::
  "bool \<Rightarrow> (nat \<Rightarrow> 'f request \<Rightarrow> py_error + response) \<Rightarrow> ('a list \<Rightarrow> 'f batch)
     \<Rightarrow> nat \<times> nat \<times> 'a list \<Rightarrow> bool" where
  "batch_ok debug_mode net batch_type b =
     (\<not> isl (fst (sink debug_mode (net (fst b)) (batch_type (snd (snd b))))))"

text \<open>
  The shapes of a replayed document. \<open>claimed_relationships\<close> and \<open>claimed_nodes\<close> follow the
  words of the specification (every element of a list has the keys); \<open>detect_type\<close> is
  compared with them.
\<close>

definition is_relationship_dict :: "json \<Rightarrow> bool" where
  "is_relationship_dict x =
     (case x of
        JObj d \<Rightarrow> has_key d (str ''source'') \<and> has_key d (str ''target'') \<and> has_key d (str ''type'')
      | _ \<Rightarrow> False)"

definition is_node_dict :: "json \<Rightarrow> bool" where
  "is_node_dict x =
     (case x of
        JObj d \<Rightarrow> has_key d (str ''external_id'') \<and> has_key d (str ''type'') \<and>
                  has_key d (str ''properties'')
      | _ \<Rightarrow> False)"

definition claimed_relationships :: "json \<Rightarrow> bool" where
  "claimed_relationships data =
     (case data of JArr xs \<Rightarrow> list_all is_relationship_dict xs | _ \<Rightarrow> False)"

definition claimed_nodes :: "json \<Rightarrow> bool" where
  "claimed_nodes data =
     (case data of
        JObj d \<Rightarrow> (has_key d (str ''nodes'') \<and> is_list (map_of d (str ''nodes''))) \<or>
                  (has_key d (str ''external_id'') \<and> has_key d (str ''type''))
      | JArr xs \<Rightarrow> list_all is_node_dict xs
      | _ \<Rightarrow> False)"

subsection \<open>Examples\<close>

text \<open>
  A conversion for the examples: it agrees with \<open>float\<close> on the strings of the examples
  (a string of ASCII digits is its value, and \<open>scf\<close> is not a number).
\<close>

fun digits_value :: "nat \<Rightarrow> pystr \<Rightarrow> nat option" where
  "digits_value acc [] = Some acc"
| "digits_value acc (c # cs) =
     (if 0x30 \<le> c \<and> c \<le> 0x39 then digits_value (10 * acc + (c - 0x30)) cs else None)"

definition example_float :: "pystr \<Rightarrow> rat option" where
  "example_float s = (if s = [] then None else map_option of_nat (digits_value 0 s))"

text \<open>
  The row that \<open>csv.reader\<close> yields for a line without quote characters: the line split at
  its commas.
\<close>

fun split_commas :: "pystr \<Rightarrow> pystr \<Rightarrow> pystr list" where
  "split_commas field [] = [rev field]"
| "split_commas field (c # cs) =
     (if c = 0x2C then rev field # split_commas [] cs else split_commas (c # field) cs)"

definition csv_fields :: "pystr \<Rightarrow> pystr list" where
  "csv_fields line = split_commas [] line"

text \<open>
  A header row; a row of 21 columns for the well \<open>W1\<close> on 2024-03-15, with a Flaring volume
  of 100 bbl; a later row of the same well.
\<close>

definition example_header :: "pystr list" where
  "example_header = replicate 21 (str ''h'')"

definition example_row :: "pystr list" where
  "example_row =
     [str ''WellA'', str ''W1'', str ''2024'', str ''3'', str ''15'', str ''100'', str ''bbl'',
      [], [], [], [], [], [], [], [], [], str ''50'', str ''scf'', [], [], []]"

definition example_row_later :: "pystr list" where
  "example_row_later =
     [str ''WellA'', str ''W1'', str ''2024'', str ''3'', str ''16'', str ''120'', str ''bbl'',
      [], [], [], [], [], [], [], [], [], [], [], [], [], []]"

text \<open>A node, a network that refuses the connection of batch 2, a relationship document.\<close>

definition example_node :: "pystr \<Rightarrow> rat node" where
  "example_node i = \<lparr> external_id = i, node_type = str ''Well'', labels = None, properties = [] \<rparr>"

definition example_net :: "nat \<Rightarrow> rat request \<Rightarrow> py_error + response" where
  "example_net n req =
     (if n = 2 then Inl ConnectionError else Inr \<lparr> status_code = 200, body = Some (JObj []) \<rparr>)"

definition example_relationship :: json where
  "example_relationship =
     JObj [(str ''source'', JObj []), (str ''target'', JObj []), (str ''type'', JStr (str ''HAS_TYPE''))]"

definition example_env :: "json \<Rightarrow> replay_env" where
  "example_env data =
     \<lparr> indykite_token = Some (str ''token''), indykite_host = str ''https://api.indykite.com'',
       file_exists = True, loaded = Inr data, explicit_type = None,
       network = (\<lambda>req. Inr \<lparr> status_code = 200, body = Some (JObj []) \<rparr>) \<rparr>"

definition example_node_and_relationship :: json where
  "example_node_and_relationship =
     JObj [(str ''source'', JObj []), (str ''target'', JObj []), (str ''type'', JStr (str ''HAS_TYPE'')),
           (str ''external_id'', JStr (str ''a'')), (str ''properties'', JArr [])]"

section \<open>Verification: identity derivation\<close>

lemma utf8_char_scalar: "scalar_value c \<Longrightarrow> \<exists>bs. utf8_char c = Inr bs"
  by (auto simp: scalar_value_def)

lemma utf8_encode_text: "unicode_text s \<Longrightarrow> \<exists>bs. utf8_encode s = Inr bs"
proof (induction s)
  case Nil
  then show ?case by simp
next
  case (Cons c cs)
  then obtain bs rest where "utf8_char c = Inr bs" "utf8_encode cs = Inr rest"
    using utf8_char_scalar[of c] by (auto simp: unicode_text_def)
  then show ?case by simp
qed

lemma unicode_text_append [simp]: "unicode_text (a @ b) \<longleftrightarrow> unicode_text a \<and> unicode_text b"
  by (simp add: unicode_text_def)

lemma unicode_text_Nil [simp]: "unicode_text []"
  by (simp add: unicode_text_def)

lemma unicode_text_ascii [simp]: "unicode_text (str cs)"
proof -
  have "of_char c < (256::nat)" for c :: char
  proof -
    have "(of_char c :: nat) mod 256 < 256" by simp
    then show ?thesis by (simp only: of_char_mod_256)
  qed
  then have "scalar_value (of_char c)" for c :: char
  proof -
    have "(of_char c :: nat) < 256" by fact
    then have "(of_char c :: nat) < 55296" by linarith
    then show ?thesis by (simp add: scalar_value_def)
  qed
  then show ?thesis by (simp add: unicode_text_def str_def list_all_iff)
qed

lemma generate_external_id_text:
  assumes "unicode_text key" and "unicode_text category" and "unicode_text date"
  shows "generate_external_id key category date = Inr (derive key category date)"
proof -
  have "unicode_text (key @ str ''_'' @ category @ str ''_'' @ date)"
    using assms by simp
  then obtain bs where "utf8_encode (key @ str ''_'' @ category @ str ''_'' @ date) = Inr bs"
    using utf8_encode_text by blast
  then show ?thesis by (simp add: derive_def generate_external_id_def)
qed

lemma generate_external_id_derive:
  "generate_external_id key category date = Inr i \<Longrightarrow> derive key category date = i"
  by (simp add: derive_def)



lemma hex_digit_range: "hex_digit n \<in> set (str ''0123456789abcdef'')"
proof -
  have "n mod 16 < length (str ''0123456789abcdef'')" by (simp add: str_def)
  then show ?thesis unfolding hex_digit_def by (rule nth_mem)
qed

lemma length_hex32 [simp]: "length (hex32 w) = 8"
  by (simp add: hex32_def)

lemma set_hex32: "set (hex32 w) \<subseteq> set (str ''0123456789abcdef'')"
  using hex_digit_range by (auto simp: hex32_def)

lemma length_hexdigest [simp]: "length (hexdigest st) = 64"
  by (cases st rule: hexdigest.cases) simp

lemma set_hexdigest: "set (hexdigest st) \<subseteq> set (str ''0123456789abcdef'')"
proof (cases st rule: hexdigest.cases)
  case (1 a b c d e f g h)
  have "set (hexdigest st) = (\<Union>w \<in> {a, b, c, d, e, f, g, h}. set (hex32 w))"
    unfolding 1 by auto
  then show ?thesis using set_hex32 by blast
qed

lemma schedule_numeral:
  "schedule (numeral n) ws =
     schedule (pred_numeral n)
       (add32 (add32 (add32 (ssig1 (ws ! 1)) (ws ! 6)) (ssig0 (ws ! 14))) (ws ! 15) # ws)"
  by (simp add: numeral_eq_Suc)

lemma replicate_numeral: "replicate (numeral n) x = x # replicate (pred_numeral n) x"
  by (simp add: numeral_eq_Suc)

lemmas sha256_eval =
  schedule_numeral replicate_numeral pad_def str_def be_bytes64_def sha256_def compress_def
  sha256_k_def sha256_init_def bsig1_def bsig0_def ssig0_def ssig1_def ch_def maj_def rotr_def
  shr_def add32_def not32_def hex32_def hex_digit_def

lemma sha256_abc:
  "hexdigest (sha256 (str ''abc'')) =
     str ''ba7816bf8f01cfea414140de5dae2223b00361a396177a9cb410ff61f20015ad''"
  by (simp add: sha256_eval)

lemma sha256_empty:
  "hexdigest (sha256 []) =
     str ''e3b0c44298fc1c149afbf4c8996fb92427ae41e4649b934ca495991b7852b855''"
  by (simp add: sha256_eval)

lemma sha256_two_blocks:
  "hexdigest (sha256 (str ''abcdbcdecdefdefgefghfghighijhijkijkljklmklmnlmnomnopnopq'')) =
     str ''248d6a61d20638b8e5c026930c3e6039a33ce45964ff2167f6ecedd419db06c1''"
  by (simp add: sha256_eval)

text \<open>
  Claim C1, as amended. For every key, category and date that are strings of Unicode scalar
  values (every string decoded from a UTF-8 file is one, and so are the ASCII constants of
  the program), \<open>generate_external_id\<close> returns a value: the first 24 characters of the
  hexadecimal SHA-256 digest of the UTF-8 encoding of \<open>key_category_date\<close>. The result has
  exactly 24 characters, all among \<open>0123456789abcdef\<close>. As a function of its three
  arguments it is deterministic: equal inputs give equal IDs.
\<close>

theorem generate_external_id_hex:
  assumes "unicode_text key" and "unicode_text category" and "unicode_text date"
  shows "\<exists>bs. utf8_encode (key @ str ''_'' @ category @ str ''_'' @ date) = Inr bs \<and>
              generate_external_id key category date = Inr (take 24 (hexdigest (sha256 bs))) \<and>
              length (take 24 (hexdigest (sha256 bs))) = 24 \<and>
              set (take 24 (hexdigest (sha256 bs))) \<subseteq> set (str ''0123456789abcdef'')"
proof -
  have "unicode_text (key @ str ''_'' @ category @ str ''_'' @ date)"
    using assms by simp
  then obtain bs where bs: "utf8_encode (key @ str ''_'' @ category @ str ''_'' @ date) = Inr bs"
    using utf8_encode_text by blast
  have "set (take 24 (hexdigest (sha256 bs))) \<subseteq> set (hexdigest (sha256 bs))"
    by (rule set_take_subset)
  then have "set (take 24 (hexdigest (sha256 bs))) \<subseteq> set (str ''0123456789abcdef'')"
    using set_hexdigest by blast
  with bs show ?thesis by (auto simp: generate_external_id_def)
qed

lemma example_id:
  "generate_external_id (str ''W1'') (str ''Flaring'') (str ''2024-03-15'') =
     Inr (str ''b9ac75a90c641a5283e06678'')"
proof -
  have v: "take 24 (hexdigest (sha256 (str ''W1_Flaring_2024-03-15''))) = str ''b9ac75a90c641a5283e06678''"
    by (simp add: sha256_eval)
  have e: "utf8_encode (str ''W1'' @ str ''_'' @ str ''Flaring'' @ str ''_'' @ str ''2024-03-15'')
            = Inr (str ''W1_Flaring_2024-03-15'')"
    by (simp add: str_def)
  show ?thesis by (simp add: generate_external_id_def e v)
qed

text \<open>
  The theorem at \<open>("W1", "Flaring", "2024-03-15")\<close>, with the digest evaluated: the ID is
  \<open>b9ac75a90c641a5283e06678\<close>.
\<close>

theorem generate_external_id_hex_witness:
  "unicode_text (str ''W1'') \<and> unicode_text (str ''Flaring'') \<and> unicode_text (str ''2024-03-15'') \<and>
   generate_external_id (str ''W1'') (str ''Flaring'') (str ''2024-03-15'') =
     Inr (str ''b9ac75a90c641a5283e06678'') \<and>
   length (str ''b9ac75a90c641a5283e06678'') = 24 \<and>
   set (str ''b9ac75a90c641a5283e06678'') \<subseteq> set (str ''0123456789abcdef'')"
proof -
  have t: "unicode_text (str ''W1'')" "unicode_text (str ''Flaring'')"
      "unicode_text (str ''2024-03-15'')"
    by simp_all
  from generate_external_id_hex[OF t] example_id t show ?thesis by auto
qed

text \<open>
  Claim C1 as stated fails: a Python \<open>str\<close> may hold a lone surrogate, and for the key
  \<open>"\ud800"\<close> the call \<open>combined.encode('utf-8')\<close> raises \<open>UnicodeEncodeError\<close>.
\<close>

theorem generate_external_id_surrogate:
  "generate_external_id [0xD800] [] [] = Inl UnicodeEncodeError"
  by (simp add: generate_external_id_def)

section \<open>Verification: rows and date entries\<close>

lemma set_strip: "set (strip s) \<subseteq> set s"
  by (auto simp: strip_def dest!: set_dropWhileD)

lemma unicode_text_strip: "unicode_text s \<Longrightarrow> unicode_text (strip s)"
  using set_strip[of s] by (auto simp: unicode_text_def list_all_iff)

lemma unicode_text_zfill: "unicode_text s \<Longrightarrow> unicode_text (zfill n s)"
  by (auto simp: zfill_def unicode_text_def scalar_value_def list_all_iff split: list.splits)

lemma unicode_text_date_string: "row_text row \<Longrightarrow> unicode_text (date_string row)"
  by (simp add: date_string_def row_text_def unicode_text_strip unicode_text_zfill)

lemma create_date_string_row:
  "create_date_string (year row) (month row) (day row) = Inr (date_string row)"
  by (simp add: create_date_string_def date_string_def)

lemma row_entry_fields:
  assumes "d \<in> set (row_entry pyfloat ss vt w t row)"
  shows "entry_well_key d = w \<and> entry_emission_type d = t \<and> entry_date d = date_string row"
  using assms
  by (auto simp: row_entry_def row_body_def create_date_string_row Let_def
           split: sum.splits option.splits prod.splits if_splits)

lemma foldl_process_row:
  "well_info (foldl (process_row pyfloat ss vt w t (get_emission_type_columns t)) st rows) = well_info st \<and>
   emission_type_ids (foldl (process_row pyfloat ss vt w t (get_emission_type_columns t)) st rows)
     = emission_type_ids st \<and>
   date_entries (foldl (process_row pyfloat ss vt w t (get_emission_type_columns t)) st rows)
     = date_entries st @ concat (map (row_entry pyfloat ss vt w t) rows)"
proof (induction rows arbitrary: st)
  case Nil
  then show ?case by simp
next
  case (Cons row rows)
  let ?st1 = "process_row pyfloat ss vt w t (get_emission_type_columns t) st row"
  have 1: "well_info ?st1 = well_info st" "emission_type_ids ?st1 = emission_type_ids st"
      "date_entries ?st1 = date_entries st @ row_entry pyfloat ss vt w t row"
    by (auto simp: process_row_def row_entry_def split: sum.splits option.splits prod.splits)
  show ?case using Cons.IH[of ?st1] 1 by simp
qed

lemma update_fresh: "k \<notin> fst ` set al \<Longrightarrow> AList.update k v al = al @ [(k, v)]"
  by (induction al) auto

lemma info_core_update:
  assumes "map_of al k = Some v" and "wi_name v' = wi_name v" and "wi_emissions_id v' = wi_emissions_id v"
  shows "info_core (AList.update k v' al) = info_core al"
  using assms by (induction al) (auto simp: info_core_def)

lemma map_of_update_same: "map_of (AList.update k v al) k = Some v"
  by (simp add: update_conv')

lemma process_types_char:
  assumes "unicode_text w" and "map_of (well_info st) w = Some info" and "distinct ts"
    and "\<forall>t\<in>set ts. (w, t) \<notin> fst ` set (emission_type_ids st)"
    and "\<forall>t\<in>set ts. unicode_text t"
  shows "\<exists>st'. process_types pyfloat ss vt w rows st ts = Inr st' \<and>
           info_core (well_info st') = info_core (well_info st) \<and>
           emission_type_ids st' =
             emission_type_ids st @ map (\<lambda>t. ((w, t), derive w (str ''emission_type_'' @ t) [])) ts \<and>
           date_entries st' =
             date_entries st @ concat (map (\<lambda>t. concat (map (row_entry pyfloat ss vt w t) rows)) ts)"
  using assms
proof (induction ts arbitrary: st info)
  case Nil
  then show ?case by simp
next
  case (Cons t ts)
  let ?eid = "derive w (str ''emission_type_'' @ t) []"
  let ?info = "info\<lparr> wi_emission_type_ids := AList.update t ?eid (wi_emission_type_ids info) \<rparr>"
  let ?st1 = "st\<lparr> well_info := AList.update w ?info (well_info st),
                  emission_type_ids := AList.update (w, t) ?eid (emission_type_ids st) \<rparr>"
  let ?st2 = "foldl (process_row pyfloat ss vt w t (get_emission_type_columns t)) ?st1 rows"
  have gen: "generate_external_id w (str ''emission_type_'' @ t) [] = Inr ?eid"
    using Cons.prems by (intro generate_external_id_text) auto
  have step: "process_types pyfloat ss vt w rows st (t # ts) = process_types pyfloat ss vt w rows ?st2 ts"
    using gen Cons.prems(2) by simp
  have fresh: "(w, t) \<notin> fst ` set (emission_type_ids st)"
    using Cons.prems(4) by simp
  have st2: "well_info ?st2 = AList.update w ?info (well_info st)"
      "emission_type_ids ?st2 = emission_type_ids st @ [((w, t), ?eid)]"
      "date_entries ?st2 = date_entries st @ concat (map (row_entry pyfloat ss vt w t) rows)"
    using foldl_process_row[of pyfloat ss vt w t ?st1 rows] update_fresh[OF fresh] by simp_all
  have core: "info_core (well_info ?st2) = info_core (well_info st)"
    unfolding st2 using Cons.prems(2) by (intro info_core_update[where v = info]) simp_all
  have m: "map_of (well_info ?st2) w = Some ?info"
    unfolding st2 by (rule map_of_update_same)
  have fr: "\<forall>t'\<in>set ts. (w, t') \<notin> fst ` set (emission_type_ids ?st2)"
    unfolding st2 using Cons.prems(3,4) by auto
  from Cons.IH[OF Cons.prems(1) m _ fr] Cons.prems(3,5)
  obtain st' where st': "process_types pyfloat ss vt w rows ?st2 ts = Inr st'"
      "info_core (well_info st') = info_core (well_info ?st2)"
      "emission_type_ids st' =
         emission_type_ids ?st2 @ map (\<lambda>t. ((w, t), derive w (str ''emission_type_'' @ t) [])) ts"
      "date_entries st' =
         date_entries ?st2 @ concat (map (\<lambda>t. concat (map (row_entry pyfloat ss vt w t) rows)) ts)"
    by auto
  show ?case
    apply (rule exI[of _ st'])
    using step st' core st2 by simp
qed


lemma keys_info_core: "fst ` set (info_core winfo) = fst ` set winfo"
  by (force simp: info_core_def)

lemma unicode_text_emission_types: "t \<in> set emission_types \<Longrightarrow> unicode_text t"
  by (auto simp: emission_types_def)

lemma distinct_emission_types: "distinct emission_types"
  by (simp add: emission_types_def str_def)

lemma process_wells_char:
  assumes "distinct (map fst ws)"
    and "\<forall>w\<in>fst ` set ws. w \<notin> fst ` set (well_info st) \<and> unicode_text w"
    and "\<forall>k\<in>fst ` set (emission_type_ids st). fst k \<notin> fst ` set ws"
  shows "\<exists>st'. process_wells pyfloat ss vt st ws = Inr st' \<and>
           info_core (well_info st') = info_core (well_info st) @ map well_core ws \<and>
           emission_type_ids st' = emission_type_ids st @ concat (map well_type_ids ws) \<and>
           date_entries st' = date_entries st @ concat (map (well_entries pyfloat ss vt) ws)"
  using assms
proof (induction ws arbitrary: st)
  case Nil
  then show ?case by simp
next
  case (Cons wr ws)
  obtain w rows where wr: "wr = (w, rows)" by (cases wr)
  let ?eid = "derive w (str ''emissions'') []"
  let ?rec = "\<lparr> wi_name = (case rows of [] \<Rightarrow> w | r # _ \<Rightarrow> name r), wi_emissions_id = ?eid,
                 wi_emission_type_ids = [] \<rparr>"
  let ?st1 = "st\<lparr> well_info := AList.update w ?rec (well_info st) \<rparr>"
  have tw: "unicode_text w" and fw: "w \<notin> fst ` set (well_info st)"
    using Cons.prems(2) wr by auto
  have gen: "generate_external_id w (str ''emissions'') [] = Inr ?eid"
    using tw by (intro generate_external_id_text) auto
  have wi1: "well_info ?st1 = well_info st @ [(w, ?rec)]"
    using update_fresh[OF fw] by simp
  have m1: "map_of (well_info ?st1) w = Some ?rec"
    by (simp add: map_of_update_same)
  have fr1: "\<forall>t\<in>set emission_types. (w, t) \<notin> fst ` set (emission_type_ids ?st1)"
    using Cons.prems(3) wr by force
  from process_types_char[OF tw m1 distinct_emission_types fr1, of pyfloat ss vt rows]
  obtain st2 where st2: "process_types pyfloat ss vt w rows ?st1 emission_types = Inr st2"
      "info_core (well_info st2) = info_core (well_info ?st1)"
      "emission_type_ids st2 = emission_type_ids ?st1 @ well_type_ids wr"
      "date_entries st2 = date_entries ?st1 @ well_entries pyfloat ss vt wr"
    using unicode_text_emission_types by (auto simp: well_type_ids_def well_entries_def wr)
  have core2: "info_core (well_info st2) = info_core (well_info st) @ [well_core wr]"
    unfolding st2 wi1 by (simp add: info_core_def well_core_def wr split: list.splits)
  have step: "process_wells pyfloat ss vt st (wr # ws) = process_wells pyfloat ss vt st2 ws"
    using gen st2(1) by (simp add: wr)
  have d: "distinct (map fst ws)" and nw: "w \<notin> fst ` set ws"
    using Cons.prems(1) wr by auto
  have keys2: "fst ` set (well_info st2) = insert w (fst ` set (well_info st))"
    using keys_info_core[of "well_info st2"] keys_info_core[of "well_info st"] core2
    by (simp add: well_core_def wr)
  have p2: "\<forall>w'\<in>fst ` set ws. w' \<notin> fst ` set (well_info st2) \<and> unicode_text w'"
    using Cons.prems(2) nw keys2 by auto
  have p3: "\<forall>k\<in>fst ` set (emission_type_ids st2). fst k \<notin> fst ` set ws"
  proof
    fix k assume "k \<in> fst ` set (emission_type_ids st2)"
    then have "k \<in> fst ` set (emission_type_ids st) \<or> fst k = w"
      unfolding st2 by (auto simp: well_type_ids_def wr)
    then show "fst k \<notin> fst ` set ws"
      using Cons.prems(3) nw by auto
  qed
  from Cons.IH[OF d p2 p3]
  obtain st' where st': "process_wells pyfloat ss vt st2 ws = Inr st'"
      "info_core (well_info st') = info_core (well_info st2) @ map well_core ws"
      "emission_type_ids st' = emission_type_ids st2 @ concat (map well_type_ids ws)"
      "date_entries st' = date_entries st2 @ concat (map (well_entries pyfloat ss vt) ws)"
    by auto
  show ?case
    apply (rule exI[of _ st'])
    using step st' core2 st2 by simp
qed

lemma keys_update: "fst ` set (AList.update k v al) = insert k (fst ` set al)"
  using dom_update[of k v al] by simp

lemma distinct_group_rows:
  "distinct (map fst g) \<Longrightarrow> distinct (map fst (group_rows g rows))"
  by (induction rows arbitrary: g) (simp_all add: distinct_update)

lemma keys_group_rows:
  "fst ` set (group_rows g rows) =
     fst ` set g \<union> set (filter (\<lambda>k. k \<noteq> []) (map well_key rows))"
  by (induction rows arbitrary: g) (auto simp: keys_update)

lemma set_update_cases:
  "(k', v') \<in> set (AList.update k v al) \<Longrightarrow> (k', v') = (k, v) \<or> (k', v') \<in> set al"
  by (induction al) (auto split: if_splits)

lemma rows_group_rows:
  assumes "(w, rs) \<in> set (group_rows g rows)" and "r \<in> set rs"
  shows "r \<in> set rows \<or> (\<exists>w' rs'. (w', rs') \<in> set g \<and> r \<in> set rs')"
  using assms
proof (induction rows arbitrary: g)
  case Nil
  then show ?case by auto
next
  case (Cons row rows)
  let ?k = "well_key row"
  let ?old = "(case map_of g ?k of None \<Rightarrow> [] | Some rs \<Rightarrow> rs)"
  let ?g = "(if ?k \<noteq> [] then AList.update ?k (?old @ [row]) g else g)"
  from Cons.prems have "(w, rs) \<in> set (group_rows ?g rows)" by simp
  from Cons.IH[OF this Cons.prems(2)]
  consider "r \<in> set rows" | w' rs' where "(w', rs') \<in> set ?g" "r \<in> set rs'" by auto
  then show ?case
  proof cases
    case 1
    then show ?thesis by simp
  next
    case 2
    show ?thesis
    proof (cases "?k \<noteq> [] \<and> (w', rs') = (?k, ?old @ [row])")
      case True
      then have "r = row \<or> r \<in> set ?old" using 2(2) by auto
      then show ?thesis
      proof
        assume "r = row" then show ?thesis by simp
      next
        assume "r \<in> set ?old"
        then obtain old where "map_of g ?k = Some old" "r \<in> set old"
          by (cases "map_of g ?k") auto
        then show ?thesis using map_of_SomeD by fast
      qed
    next
      case False
      then have "(w', rs') \<in> set g"
        using 2(1) set_update_cases[of w' rs' ?k "?old @ [row]" g] by (auto split: if_splits)
      then show ?thesis using 2(2) by blast
    qed
  qed
qed

lemma read_row_text: "list_all unicode_text row \<Longrightarrow> row_text (read_row row)"
  by (auto simp: read_row_def row_text_def list_all_iff intro!: unicode_text_strip)

lemma read_rows_text:
  "csv_text rows \<Longrightarrow> r \<in> set (read_rows rows) \<Longrightarrow> row_text r"
  by (induction rows) (auto simp: csv_text_def read_row_text split: if_splits)


lemma collect_char:
  assumes "csv_text rows"
  shows "\<exists>st. collect pyfloat ss vt (header # rows) = Inr st \<and>
           info_core (well_info st) = map well_core (group_data_by_well (read_rows rows)) \<and>
           emission_type_ids st = concat (map well_type_ids (group_data_by_well (read_rows rows))) \<and>
           date_entries st =
             sort_entries (concat (map (well_entries pyfloat ss vt)
                                     (group_data_by_well (read_rows rows))))"
proof -
  let ?G = "group_data_by_well (read_rows rows)"
  have d: "distinct (map fst ?G)"
    unfolding group_data_by_well_def by (rule distinct_group_rows) simp
  have k: "\<forall>w\<in>fst ` set ?G. w \<notin> fst ` set (well_info (initial_state :: 'a build_state)) \<and> unicode_text w"
  proof
    fix w assume "w \<in> fst ` set ?G"
    then have "w \<in> set (filter (\<lambda>k. k \<noteq> []) (map well_key (read_rows rows)))"
      unfolding group_data_by_well_def keys_group_rows by simp
    then obtain r where "r \<in> set (read_rows rows)" "w = well_key r" by auto
    then have "unicode_text w" using read_rows_text[OF assms] by (auto simp: row_text_def)
    then show "w \<notin> fst ` set (well_info (initial_state :: 'a build_state)) \<and> unicode_text w"
      by (simp add: initial_state_def)
  qed
  have e: "\<forall>k\<in>fst ` set (emission_type_ids (initial_state :: 'a build_state)). fst k \<notin> fst ` set ?G"
    by (simp add: initial_state_def)
  from process_wells_char[OF d k e, of pyfloat ss vt]
  obtain st where st: "process_wells pyfloat ss vt initial_state ?G = Inr st"
      "info_core (well_info st) = map well_core ?G"
      "emission_type_ids st = concat (map well_type_ids ?G)"
      "date_entries st = concat (map (well_entries pyfloat ss vt) ?G)"
    by (auto simp: initial_state_def info_core_def)
  show ?thesis
    apply (rule exI[of _ "st\<lparr> date_entries := sort_entries (date_entries st) \<rparr>"])
    using st by (simp add: collect_def read_csv_data_def)
qed

lemma set_sort_entries [simp]: "set (sort_entries es) = set es"
  by (simp add: sort_entries_def)

lemma length_sort_entries [simp]: "length (sort_entries es) = length es"
  by (simp add: sort_entries_def)

lemma well_entries_props:
  assumes "csv_text rows" and "(w, rs) \<in> set (group_data_by_well (read_rows rows))"
    and "d \<in> set (well_entries pyfloat ss vt (w, rs))"
  shows "entry_well_key d = w \<and> entry_emission_type d \<in> set emission_types \<and>
         unicode_text (entry_well_key d) \<and> unicode_text (entry_emission_type d) \<and>
         unicode_text (entry_date d)"
proof -
  from assms(3) obtain t row where t: "t \<in> set emission_types" and row: "row \<in> set rs"
    and d: "d \<in> set (row_entry pyfloat ss vt w t row)"
    by (auto simp: well_entries_def)
  have f: "entry_well_key d = w" "entry_emission_type d = t" "entry_date d = date_string row"
    using row_entry_fields[OF d] by auto
  have "row \<in> set (read_rows rows)"
    using rows_group_rows[of w rs "[]" "read_rows rows" row] assms(2) row
    by (simp add: group_data_by_well_def)
  then have rt: "row_text row" using read_rows_text[OF assms(1)] by simp
  have "w \<in> fst ` set (group_rows [] (read_rows rows))"
    using assms(2) by (metis fst_conv group_data_by_well_def imageI)
  then have "w \<in> set (filter (\<lambda>k. k \<noteq> []) (map well_key (read_rows rows)))"
    unfolding keys_group_rows by simp
  then obtain r where "r \<in> set (read_rows rows)" "w = well_key r" by auto
  then have tw: "unicode_text w" using read_rows_text[OF assms(1)] by (auto simp: row_text_def)
  have tt: "unicode_text t" using t by (rule unicode_text_emission_types)
  have td: "unicode_text (date_string row)" using rt by (rule unicode_text_date_string)
  show ?thesis
    unfolding f using t tw tt td by simp
qed

lemma reading_nodes_text:
  "list_all entry_text es \<Longrightarrow> reading_nodes es = Inr (map reading_node es)"
proof (induction es)
  case Nil
  then show ?case by simp
next
  case (Cons d ds)
  then have "generate_external_id (entry_well_key d) (entry_emission_type d) (entry_date d) =
               Inr (derive (entry_well_key d) (entry_emission_type d) (entry_date d))"
    by (intro generate_external_id_text) (simp_all add: entry_text_def)
  moreover have "reading_nodes ds = Inr (map reading_node ds)" using Cons by simp
  ultimately show ?case by (simp add: reading_node_def)
qed

lemma has_type_rels_char:
  assumes "\<forall>c\<in>set (info_core winfo). snd (snd c) = derive (fst c) (str ''emissions'') []"
    and "\<forall>ke\<in>set ets. fst (fst ke) \<in> fst ` set winfo"
  shows "has_type_rels winfo ets = Inr (map has_type_rel ets)"
  using assms(2)
proof (induction ets)
  case Nil
  then show ?case by simp
next
  case (Cons ke ets)
  obtain w t eid where ke: "ke = ((w, t), eid)" by (cases ke) auto
  have "w \<in> fst ` set winfo" using Cons.prems ke by auto
  then obtain info where m: "map_of winfo w = Some info"
    by (metis domD dom_map_of_conv_image_fst)
  then have "(w, info) \<in> set winfo" by (rule map_of_SomeD)
  then have "(w, wi_name info, wi_emissions_id info) \<in> set (info_core winfo)"
    by (force simp: info_core_def)
  then have e: "wi_emissions_id info = derive w (str ''emissions'') []"
    using assms(1) by fastforce
  have "has_type_rels winfo ets = Inr (map has_type_rel ets)"
    using Cons by simp
  then show ?case using m e by (simp add: ke has_type_rel_def)
qed

lemma chain_rels_length: "chain_rels ets cg es = Inr rs \<Longrightarrow> length rs = length es"
  by (induction es arbitrary: cg rs) (auto split: sum.splits option.splits)

lemma chain_rels_group:
  assumes "chain_rels ets cg es = Inr rs"
  shows "map snd (filter (\<lambda>dr. in_group w t (fst dr)) (zip es rs)) =
           chain_of t (the (map_of ets (w, t))) (cg (w, t)) (map entry_id (filter (in_group w t) es))"
  using assms
proof (induction es arbitrary: cg rs)
  case Nil
  then show ?case by (simp add: chain_of_def split: option.splits)
next
  case (Cons d ds)
  let ?k = "(entry_well_key d, entry_emission_type d)"
  from Cons.prems obtain i where gen: "generate_external_id (entry_well_key d) (entry_emission_type d) (entry_date d) = Inr i"
    by (auto split: sum.splits)
  then have i: "i = entry_id d" by (simp add: entry_id_def derive_def)
  from Cons.prems gen obtain r rs' where rs: "rs = r # rs'"
    and rest: "chain_rels ets (cg(?k \<mapsto> i)) ds = Inr rs'"
    and r: "r = (case cg ?k of
                   None \<Rightarrow> has_data_rel (entry_emission_type d) (the (map_of ets ?k)) i
                 | Some p \<Rightarrow> next_date_rel (entry_emission_type d) p i)"
    by (auto simp: has_data_rel_def next_date_rel_def split: sum.splits option.splits)
  note IH = Cons.IH[OF rest]
  show ?case
  proof (cases "in_group w t d")
    case True
    then have k: "?k = (w, t)" by (simp add: in_group_def)
    have "map snd (filter (\<lambda>dr. in_group w t (fst dr)) (zip (d # ds) rs)) =
            r # next_date_rels t i (map entry_id (filter (in_group w t) ds))"
      using IH True by (simp add: rs k chain_of_def)
    then show ?thesis
      using True r k i by (simp add: chain_of_def split: option.splits)
  next
    case False
    then have "?k \<noteq> (w, t)" by (auto simp: in_group_def)
    then have cgk: "(cg(?k \<mapsto> i)) (w, t) = cg (w, t)" by (rule fun_upd_other[OF not_sym])
    have "map snd (filter (\<lambda>dr. in_group w t (fst dr)) (zip ds rs')) =
            chain_of t (the (map_of ets (w, t))) (cg (w, t)) (map entry_id (filter (in_group w t) ds))"
      using IH by (simp only: cgk)
    then show ?thesis using False by (simp add: rs)
  qed
qed

lemma chain_rels_ok:
  assumes "list_all entry_text es"
    and "\<forall>d\<in>set es. (entry_well_key d, entry_emission_type d) \<in> fst ` set ets"
  shows "\<exists>rs. chain_rels ets cg es = Inr rs"
  using assms
proof (induction es arbitrary: cg)
  case Nil
  then show ?case by simp
next
  case (Cons d ds)
  let ?k = "(entry_well_key d, entry_emission_type d)"
  have gen: "generate_external_id (entry_well_key d) (entry_emission_type d) (entry_date d)
               = Inr (entry_id d)"
    using Cons.prems(1) by (simp add: entry_text_def entry_id_def generate_external_id_text)
  have "?k \<in> fst ` set ets" using Cons.prems(2) by simp
  then obtain e where m: "map_of ets ?k = Some e"
    by (metis domD dom_map_of_conv_image_fst)
  have p1: "list_all entry_text ds" using Cons.prems(1) by simp
  have p2: "\<forall>d\<in>set ds. (entry_well_key d, entry_emission_type d) \<in> fst ` set ets"
    using Cons.prems(2) by simp
  from Cons.IH[OF p1 p2, of "cg(?k \<mapsto> entry_id d)"]
  obtain rs where "chain_rels ets (cg(?k \<mapsto> entry_id d)) ds = Inr rs" by blast
  then show ?case using gen m by (cases "cg ?k") simp_all
qed

lemma sorted_wrt_strict:
  fixes f :: "'a \<Rightarrow> 'b::linorder"
  shows "sorted_wrt (\<lambda>a b. f b \<le> f a) xs \<Longrightarrow> distinct (map f xs) \<Longrightarrow>
         sorted_wrt (\<lambda>a b. f b < f a) xs"
proof (induction xs)
  case Nil
  then show ?case by simp
next
  case (Cons a xs)
  have "f x < f a" if "x \<in> set xs" for x
  proof -
    have "f x \<le> f a" using Cons.prems(1) that by simp
    moreover have "f x \<noteq> f a"
    proof
      assume "f x = f a"
      then have "f a \<in> f ` set xs" using that by (metis imageI)
      then show False using Cons.prems(2) by simp
    qed
    ultimately show ?thesis by simp
  qed
  then show ?case using Cons by simp
qed

lemma sort_entries_group_sorted:
  "sorted_wrt (\<lambda>a b. entry_date b \<le> entry_date a) (filter (in_group w t) (sort_entries es))"
proof -
  have "sorted (map entry_key (sort_key entry_key (rev es)))"
    by (rule sorted_sort_key)
  then have "sorted_wrt (\<lambda>a b. entry_key a \<le> entry_key b) (sort_key entry_key (rev es))"
    by (simp add: sorted_map)
  then have "sorted_wrt (\<lambda>a b. entry_key b \<le> entry_key a) (sort_entries es)"
    by (simp add: sort_entries_def sorted_wrt_rev)
  then have "sorted_wrt (\<lambda>a b. entry_key b \<le> entry_key a) (filter (in_group w t) (sort_entries es))"
    by (rule sorted_wrt_filter)
  then show ?thesis
    by (rule sorted_wrt_mono_rel[rotated]) (auto simp: in_group_def entry_key_def)
qed

lemmas build_eval =
  generate_external_id_text
  build_graph_def collect_def read_csv_data_def read_row_def group_data_by_well_def
  initial_state_def emission_types_def get_emission_type_columns_def column_maps_def
  row_body_def process_row_def create_date_string_def strip_def zfill_def is_space_def
  cell_def to_number_def conversion_warning_def unit_metadata_def entry_props_def
  sort_entries_def entry_key_def build_nodes_def build_relationships_def
  well_nodes_def emissions_nodes_def emission_type_nodes_def has_emissions_rels_def
  convert_properties_to_array_def startswith_def endswith_def
  example_float_def unicode_text_def scalar_value_def str_def Let_def


text \<open>
  Claim C10. \<open>create_date_string\<close> returns, for all strings, the stripped year, a hyphen,
  the stripped month filled to width 2 by \<open>zfill\<close>, a hyphen, and the stripped day filled to
  width 2; it never raises. The body of the \<open>try\<close> of a row raises only when the column map
  lacks a key (never \<open>ValueError\<close> from the date), and for the four fixed emission types it
  never raises: the handler that skips the row is not reached, and all that is printed for
  the row are the conversion warnings.
\<close>

theorem create_date_string_total:
  "create_date_string y m d =
     Inr (strip y @ str ''-'' @ zfill 2 (strip m) @ str ''-'' @ zfill 2 (strip d)) \<and>
   ((\<exists>e. row_body pyfloat ss vt w t cm row = Inl e) \<longleftrightarrow>
      (map_of cm (str ''volume'') = None \<or> map_of cm (str ''volume_uom'') = None \<or>
       map_of cm (str ''mass'') = None \<or> map_of cm (str ''mass_uom'') = None)) \<and>
   (t \<in> set emission_types \<longrightarrow>
      \<not> isl (row_body pyfloat ss vt w t (get_emission_type_columns t) row) \<and>
      printed (process_row pyfloat ss vt w t (get_emission_type_columns t) st row) =
        printed st @
        conversion_warning pyfloat VolumeWarning
          (cell (row_data row) (the (map_of (get_emission_type_columns t) (str ''volume'')))) @
        conversion_warning pyfloat MassWarning
          (cell (row_data row) (the (map_of (get_emission_type_columns t) (str ''mass'')))))"
proof (intro conjI impI)
  show "create_date_string y m d =
     Inr (strip y @ str ''-'' @ zfill 2 (strip m) @ str ''-'' @ zfill 2 (strip d))"
    by (simp add: create_date_string_def)
  show "(\<exists>e. row_body pyfloat ss vt w t cm row = Inl e) \<longleftrightarrow>
      (map_of cm (str ''volume'') = None \<or> map_of cm (str ''volume_uom'') = None \<or>
       map_of cm (str ''mass'') = None \<or> map_of cm (str ''mass_uom'') = None)"
    by (auto simp: row_body_def create_date_string_def Let_def split: option.splits)
next
  assume t: "t \<in> set emission_types"
  then obtain vi vui mi mui where cm: "get_emission_type_columns t =
      [(str ''volume'', vi), (str ''volume_uom'', vui), (str ''mass'', mi), (str ''mass_uom'', mui)]"
    by (auto simp: emission_types_def get_emission_type_columns_def column_maps_def str_def)
  have m: "map_of (get_emission_type_columns t) (str ''volume'') = Some vi"
      "map_of (get_emission_type_columns t) (str ''volume_uom'') = Some vui"
      "map_of (get_emission_type_columns t) (str ''mass'') = Some mi"
      "map_of (get_emission_type_columns t) (str ''mass_uom'') = Some mui"
    unfolding cm by (simp_all add: str_def)
  show "\<not> isl (row_body pyfloat ss vt w t (get_emission_type_columns t) row)"
    by (simp add: row_body_def create_date_string_def m Let_def)
  show "printed (process_row pyfloat ss vt w t (get_emission_type_columns t) st row) =
        printed st @
        conversion_warning pyfloat VolumeWarning
          (cell (row_data row) (the (map_of (get_emission_type_columns t) (str ''volume'')))) @
        conversion_warning pyfloat MassWarning
          (cell (row_data row) (the (map_of (get_emission_type_columns t) (str ''mass''))))"
    by (simp add: process_row_def row_body_def create_date_string_def m Let_def)
qed

text \<open>The theorem at year \<open>"2024"\<close>, month \<open>" 3"\<close>, day \<open>"15"\<close> and the example row.\<close>

theorem create_date_string_total_witness:
  "str ''Flaring'' \<in> set emission_types \<and>
   create_date_string (str ''2024'') (str '' 3'') (str ''15'') = Inr (str ''2024-03-15'') \<and>
   \<not> isl (row_body example_float (str ''emissions.csv'') (str ''T'') (str ''W1'') (str ''Flaring'')
            (get_emission_type_columns (str ''Flaring'')) (read_row example_row))"
  using create_date_string_total[of "str ''2024''" "str '' 3''" "str ''15''" example_float
      "str ''emissions.csv''" "str ''T''" "str ''W1''" "str ''Flaring''" _ "read_row example_row"]
  by (simp add: emission_types_def strip_def zfill_def is_space_def str_def)





section \<open>Verification: the graph\<close>


lemma set_wells:
  "set (wells rows) = {well_key r |r. r \<in> set (read_rows rows) \<and> well_key r \<noteq> []}"
  using keys_group_rows[of "[]" "read_rows rows"]
  by (auto simp: wells_def group_data_by_well_def)


lemma nodes_of_core:
  "well_nodes winfo = map well_node (info_core winfo)"
  "emissions_nodes winfo = map emissions_node (info_core winfo)"
  "has_emissions_rels winfo = map has_emissions_rel (info_core winfo)"
  by (simp_all add: well_nodes_def emissions_nodes_def has_emissions_rels_def info_core_def
        well_node_def emissions_node_def has_emissions_rel_def case_prod_beta)

lemma emission_type_nodes_map: "emission_type_nodes ets = map emission_type_node ets"
  by (simp add: emission_type_nodes_def emission_type_node_def case_prod_beta)

lemma build_graph_char:
  assumes "csv_text rows"
  shows "\<exists>st chain.
           collect pyfloat ss vt (header # rows) = Inr st \<and>
           info_core (well_info st) = map well_core (group_data_by_well (read_rows rows)) \<and>
           emission_type_ids st = concat (map well_type_ids (group_data_by_well (read_rows rows))) \<and>
           list_all entry_text (date_entries st) \<and>
           (\<forall>d\<in>set (date_entries st).
              entry_well_key d \<in> set (wells rows) \<and> entry_emission_type d \<in> set emission_types) \<and>
           chain_rels (emission_type_ids st) Map.empty (date_entries st) = Inr chain \<and>
           build_graph pyfloat ss vt (header # rows) =
             Inr (map well_node (info_core (well_info st)) @
                  map emissions_node (info_core (well_info st)) @
                  map emission_type_node (emission_type_ids st) @
                  map reading_node (date_entries st),
                  map has_emissions_rel (info_core (well_info st)) @
                  map has_type_rel (emission_type_ids st) @ chain)"
proof -
  let ?G = "group_data_by_well (read_rows rows)"
  from collect_char[OF assms, of pyfloat ss vt header]
  obtain st where st: "collect pyfloat ss vt (header # rows) = Inr st"
      "info_core (well_info st) = map well_core ?G"
      "emission_type_ids st = concat (map well_type_ids ?G)"
      "date_entries st = sort_entries (concat (map (well_entries pyfloat ss vt) ?G))"
    by blast
  have e: "entry_text d \<and> entry_well_key d \<in> set (wells rows) \<and>
           entry_emission_type d \<in> set emission_types" if "d \<in> set (date_entries st)" for d
  proof -
    from that obtain wr where wr: "wr \<in> set ?G" "d \<in> set (well_entries pyfloat ss vt wr)"
      unfolding st by auto
    obtain w rs where "wr = (w, rs)" by (cases wr)
    with wr well_entries_props[OF assms, of w rs d pyfloat ss vt]
    show ?thesis by (force simp: entry_text_def wells_def)
  qed
  then have etext: "list_all entry_text (date_entries st)"
    by (simp add: list_all_iff)
  have keys: "\<forall>d\<in>set (date_entries st).
                (entry_well_key d, entry_emission_type d) \<in> fst ` set (emission_type_ids st)"
  proof
    fix d assume "d \<in> set (date_entries st)"
    then have "entry_well_key d \<in> fst ` set ?G" "entry_emission_type d \<in> set emission_types"
      using e by (auto simp: wells_def)
    then show "(entry_well_key d, entry_emission_type d) \<in> fst ` set (emission_type_ids st)"
      unfolding st by (force simp: well_type_ids_def)
  qed
  from chain_rels_ok[OF etext keys, of Map.empty]
  obtain chain where chain: "chain_rels (emission_type_ids st) Map.empty (date_entries st) = Inr chain"
    by blast
  have c1: "\<forall>c\<in>set (info_core (well_info st)). snd (snd c) = derive (fst c) (str ''emissions'') []"
    unfolding st by (auto simp: well_core_def)
  have c2: "\<forall>ke\<in>set (emission_type_ids st). fst (fst ke) \<in> fst ` set (well_info st)"
    unfolding keys_info_core[symmetric] st by (force simp: well_type_ids_def well_core_def)
  have ht: "has_type_rels (well_info st) (emission_type_ids st) = Inr (map has_type_rel (emission_type_ids st))"
    using c1 c2 by (rule has_type_rels_char)
  have bn: "build_nodes st =
      Inr (map well_node (info_core (well_info st)) @ map emissions_node (info_core (well_info st)) @
           map emission_type_node (emission_type_ids st) @ map reading_node (date_entries st))"
    by (simp add: build_nodes_def reading_nodes_text[OF etext] nodes_of_core emission_type_nodes_map)
  have br: "build_relationships st =
      Inr (map has_emissions_rel (info_core (well_info st)) @
           map has_type_rel (emission_type_ids st) @ chain)"
    by (simp add: build_relationships_def ht chain nodes_of_core)
  show ?thesis
    apply (rule exI[of _ st], rule exI[of _ chain])
    using st(1-3) etext e chain bn br by (simp add: build_graph_def)
qed

lemma wells_text: "csv_text rows \<Longrightarrow> w \<in> set (wells rows) \<Longrightarrow> unicode_text w"
  using read_rows_text[of rows] by (auto simp: set_wells row_text_def)










lemma csv_text_example: "csv_text [example_row]"
  by (simp add: csv_text_def example_row_def)


lemma generate_external_id_length:
  "generate_external_id key category date = Inr i \<Longrightarrow> length i = 24"
  by (auto simp: generate_external_id_def split: sum.splits)

text \<open>
  Claim C9, as amended. The graph of a CSV input consists of the Well nodes, the Emissions
  nodes, the EmissionType nodes and the Reading nodes, in this order. The external ID of
  an Emissions node is the result of \<open>generate_external_id\<close> on the well key, \<open>emissions\<close>
  and the empty date; that of an EmissionType node its result on the well key,
  \<open>emission_type_\<close> followed by the type, and the empty date; that of a Reading node its
  result on the well key, the type and the date of the entry. The external ID of a Well
  node is the well key itself.
\<close>

theorem derived_ids:
  assumes "csv_text rows"
  shows "\<exists>st wn en tn rn rels.
           collect pyfloat ss vt (header # rows) = Inr st \<and>
           build_graph pyfloat ss vt (header # rows) = Inr (wn @ en @ tn @ rn, rels) \<and>
           map (\<lambda>n. (node_type n, external_id n)) wn = map (\<lambda>w. (str ''Well'', w)) (wells rows) \<and>
           map (\<lambda>n. (node_type n, Inr (external_id n))) en =
             map (\<lambda>w. (str ''Emissions'', generate_external_id w (str ''emissions'') [])) (wells rows) \<and>
           map (\<lambda>n. (node_type n, Inr (external_id n))) tn =
             concat (map (\<lambda>w. map (\<lambda>t. (str ''EmissionType'',
                                            generate_external_id w (str ''emission_type_'' @ t) []))
                                   emission_types)
                         (wells rows)) \<and>
           map (\<lambda>n. (node_type n, Inr (external_id n))) rn =
             map (\<lambda>d. (entry_emission_type d,
                        generate_external_id (entry_well_key d) (entry_emission_type d) (entry_date d)))
                 (date_entries st)"
proof -
  let ?G = "group_data_by_well (read_rows rows)"
  from build_graph_char[OF assms, of pyfloat ss vt header]
  obtain st :: "'a build_state" and chain where c: "collect pyfloat ss vt (header # rows) = Inr st"
    and st: "info_core (well_info st) = map well_core ?G"
      "emission_type_ids st = concat (map well_type_ids ?G)"
      "list_all entry_text (date_entries st)"
    and bg: "build_graph pyfloat ss vt (header # rows) =
             Inr (map well_node (info_core (well_info st)) @
                  map emissions_node (info_core (well_info st)) @
                  map emission_type_node (emission_type_ids st) @
                  map reading_node (date_entries st),
                  map has_emissions_rel (info_core (well_info st)) @
                  map has_type_rel (emission_type_ids st) @ chain)"
    by blast
  have tw: "unicode_text (fst wr)" if "wr \<in> set ?G" for wr
    using wells_text[OF assms, of "fst wr"] that by (simp add: wells_def)
  have g1: "generate_external_id (fst wr) (str ''emissions'') [] = Inr (derive (fst wr) (str ''emissions'') [])"
    if "wr \<in> set ?G" for wr
    using tw[OF that] by (intro generate_external_id_text) simp_all
  have g2: "generate_external_id (fst wr) (str ''emission_type_'' @ t) [] =
              Inr (derive (fst wr) (str ''emission_type_'' @ t) [])"
    if "wr \<in> set ?G" "t \<in> set emission_types" for wr t
    using tw[OF that(1)] unicode_text_emission_types[OF that(2)]
    by (intro generate_external_id_text) simp_all
  have g3: "generate_external_id (entry_well_key d) (entry_emission_type d) (entry_date d) =
              Inr (derive (entry_well_key d) (entry_emission_type d) (entry_date d))"
    if "d \<in> set (date_entries st)" for d
    using st(3) that by (intro generate_external_id_text) (auto simp: list_all_iff entry_text_def)
  have w: "map (\<lambda>n :: 'a node. (node_type n, external_id n)) (map well_node (map well_core ?G)) =
             map (\<lambda>w. (str ''Well'', w)) (wells rows)"
    by (simp add: well_node_def well_core_def wells_def comp_def)
  have e: "map (\<lambda>n :: 'a node. (node_type n, Inr (external_id n) :: py_error + pystr))
               (map emissions_node (map well_core ?G)) =
             map (\<lambda>w. (str ''Emissions'', generate_external_id w (str ''emissions'') [])) (wells rows)"
    by (simp add: emissions_node_def well_core_def wells_def comp_def g1 cong: map_cong)
  have t: "map (\<lambda>n :: 'a node. (node_type n, Inr (external_id n) :: py_error + pystr))
               (map emission_type_node (concat (map well_type_ids ?G))) =
             concat (map (\<lambda>w. map (\<lambda>t. (str ''EmissionType'',
                                            generate_external_id w (str ''emission_type_'' @ t) []))
                                   emission_types)
                         (wells rows))"
    by (simp add: emission_type_node_def well_type_ids_def wells_def comp_def map_concat g2
          cong: map_cong)
  have r: "map (\<lambda>n. (node_type n, Inr (external_id n) :: py_error + pystr))
               (map reading_node (date_entries st)) =
             map (\<lambda>d. (entry_emission_type d,
                        generate_external_id (entry_well_key d) (entry_emission_type d) (entry_date d)))
                 (date_entries st)"
    by (simp add: reading_node_def comp_def g3 cong: map_cong)
  show ?thesis
    apply (rule exI[of _ st])
    apply (rule exI[of _ "map well_node (info_core (well_info st))"])
    apply (rule exI[of _ "map emissions_node (info_core (well_info st))"])
    apply (rule exI[of _ "map emission_type_node (emission_type_ids st)"])
    apply (rule exI[of _ "map reading_node (date_entries st)"])
    apply (rule exI)
    apply (intro conjI)
         apply (rule c)
        apply (rule bg)
       apply (simp only: st w)
      apply (simp only: st e)
     apply (simp only: st t)
    apply (rule r)
    done
qed

lemma example_wells: "wells [example_row] = [str ''W1'']"
  by (simp add: wells_def group_data_by_well_def example_row_def read_row_def strip_def
        is_space_def str_def)

text \<open>The theorem at the example row.\<close>

theorem derived_ids_witness:
  "csv_text [example_row] \<and>
   (\<exists>st wn en tn rn rels.
      collect example_float (str ''emissions.csv'') (str ''T'') [example_header, example_row] = Inr st \<and>
      build_graph example_float (str ''emissions.csv'') (str ''T'') [example_header, example_row] =
        Inr (wn @ en @ tn @ rn, rels) \<and>
      map (\<lambda>n. (node_type n, external_id n)) wn = [(str ''Well'', str ''W1'')] \<and>
      map (\<lambda>n. (node_type n, Inr (external_id n))) en =
        [(str ''Emissions'', generate_external_id (str ''W1'') (str ''emissions'') [])] \<and>
      map (\<lambda>n. (node_type n, Inr (external_id n))) tn =
        map (\<lambda>t. (str ''EmissionType'',
                   generate_external_id (str ''W1'') (str ''emission_type_'' @ t) []))
            emission_types \<and>
      map (\<lambda>n. (node_type n, Inr (external_id n))) rn =
        map (\<lambda>d. (entry_emission_type d,
                   generate_external_id (entry_well_key d) (entry_emission_type d) (entry_date d)))
            (date_entries st))"
  using derived_ids[OF csv_text_example, of example_float "str ''emissions.csv''" "str ''T''"
      example_header]
  unfolding example_wells by (simp add: csv_text_example)

text \<open>
  Claim C9 as stated fails: for the example row the Well node has the external ID \<open>W1\<close>,
  the raw well key, which no call of \<open>generate_external_id\<close> returns (its results have 24
  characters).
\<close>

theorem well_id_is_raw_key:
  "\<exists>nodes rels.
     build_graph example_float (str ''emissions.csv'') (str ''T'') [example_header, example_row] =
       Inr (nodes, rels) \<and>
     node_type (hd nodes) = str ''Well'' \<and> external_id (hd nodes) = str ''W1'' \<and>
     (\<forall>key category date. generate_external_id key category date \<noteq> Inr (str ''W1''))"
proof -
  have a: "\<forall>key category date. generate_external_id key category date \<noteq> Inr (str ''W1'')"
    using generate_external_id_length by (fastforce simp: str_def)
  show ?thesis
    using a by (simp add: build_eval example_row_def example_header_def)
qed

lemma csv_fields_example:
  "csv_fields (str ''WellA,W1,2024,3,15,100,bbl,,,,,,,,,,50,scf,,,'') = example_row"
  by (simp add: csv_fields_def example_row_def str_def)

text \<open>
  Claim C8 as stated fails: the row of the claim has 20 columns, \<open>read_csv_data\<close> skips a
  row of fewer than 21 columns, and the graph of a file holding this row alone is empty.
\<close>

theorem spec_example_row_skipped:
  "length (csv_fields (str ''WellA,W1,2024,3,15,100,bbl,,,,,,,,,,50,scf,,'')) = 20 \<and>
   build_graph example_float (str ''emissions.csv'') (str ''T'')
       [example_header, csv_fields (str ''WellA,W1,2024,3,15,100,bbl,,,,,,,,,,50,scf,,'')] =
     Inr ([], [])"
  by (simp add: csv_fields_def str_def build_eval)

text \<open>
  Claim C8, as amended: the row of the claim with one more empty column (21 columns). With
  \<open>float("100")\<close> returning \<open>v\<close> and \<open>float("scf")\<close> raising, the graph has exactly one node
  with labels, the Reading node: its external ID is the result of \<open>generate_external_id\<close> on
  \<open>W1\<close>, \<open>Flaring\<close>, \<open>2024-03-15\<close>; its type is \<open>Flaring\<close>, its labels are \<open>Emission\<close>, and its
  properties are the date and the volume \<open>v\<close>, the volume carrying the units \<open>bbl\<close>.
\<close>

theorem example_row_reading:
  assumes "pyfloat (str ''100'') = Some v" and "pyfloat (str ''scf'') = None"
  shows "\<exists>nodes rels i.
           build_graph pyfloat ss vt
               [header, csv_fields (str ''WellA,W1,2024,3,15,100,bbl,,,,,,,,,,50,scf,,,'')] =
             Inr (nodes, rels) \<and>
           generate_external_id (str ''W1'') (str ''Flaring'') (str ''2024-03-15'') = Inr i \<and>
           filter (\<lambda>n. labels n \<noteq> None) nodes =
             [\<lparr> external_id = i, node_type = str ''Flaring'', labels = Some [str ''Emission''],
                properties =
                  [\<lparr> prop_type = str ''date'', prop_value = Str (str ''2024-03-15''),
                     prop_metadata = None \<rparr>,
                   \<lparr> prop_type = str ''volume'', prop_value = Num v,
                     prop_metadata =
                       Some (Meta \<lparr> units = str ''bbl'', md_source = ss, assurance_level = 3,
                                    verified_time = vt \<rparr>) \<rparr>] \<rparr>]"
  using assms unfolding csv_fields_example
  by (simp add: build_eval example_row_def)

text \<open>
  The theorem with the example conversion: the volume is 100 and the external ID is
  \<open>b9ac75a90c641a5283e06678\<close>.
\<close>

theorem example_row_reading_witness:
  "example_float (str ''100'') = Some 100 \<and> example_float (str ''scf'') = None \<and>
   (\<exists>nodes rels.
      build_graph example_float (str ''emissions.csv'') (str ''T'')
          [example_header, csv_fields (str ''WellA,W1,2024,3,15,100,bbl,,,,,,,,,,50,scf,,,'')] =
        Inr (nodes, rels) \<and>
      filter (\<lambda>n. labels n \<noteq> None) nodes =
        [\<lparr> external_id = str ''b9ac75a90c641a5283e06678'', node_type = str ''Flaring'',
           labels = Some [str ''Emission''],
           properties =
             [\<lparr> prop_type = str ''date'', prop_value = Str (str ''2024-03-15''),
                prop_metadata = None \<rparr>,
              \<lparr> prop_type = str ''volume'', prop_value = Num 100,
                prop_metadata =
                  Some (Meta \<lparr> units = str ''bbl'', md_source = str ''emissions.csv'',
                               assurance_level = 3, verified_time = str ''T'' \<rparr>) \<rparr>] \<rparr>])"
proof -
  have f: "example_float (str ''100'') = Some 100" "example_float (str ''scf'') = None"
    by (simp_all add: example_float_def str_def)
  note i = example_id
  from example_row_reading[OF f, of "str ''emissions.csv''" "str ''T''" example_header] i f
  show ?thesis by auto
qed

lemma map_of_well_type_ids:
  assumes "w \<in> fst ` set G" and "t \<in> set emission_types"
  shows "map_of (concat (map well_type_ids G)) (w, t) = Some (derive w (str ''emission_type_'' @ t) [])"
proof -
  have "(w, t) \<in> fst ` set (concat (map well_type_ids G))"
    using assms by (force simp: well_type_ids_def)
  then obtain v where v: "map_of (concat (map well_type_ids G)) (w, t) = Some v"
    by (metis domD dom_map_of_conv_image_fst)
  then have "((w, t), v) \<in> set (concat (map well_type_ids G))" by (rule map_of_SomeD)
  then have "v = derive w (str ''emission_type_'' @ t) []"
    by (auto simp: well_type_ids_def)
  with v show ?thesis by simp
qed

lemma length_next_date_rels [simp]: "length (next_date_rels t p ids) = length ids"
  by (induction ids arbitrary: p) simp_all

lemma targets_next_date_rels:
  "map (\<lambda>r. ep_external_id (target r)) (next_date_rels t p ids) = ids"
  by (induction ids arbitrary: p) (simp_all add: next_date_rel_def)

text \<open>
  Claim C2, as amended. Let the group of a well key and an emission type be the date entries
  of that pair, in the order of the sorted list, and let it have at least two entries.
  The relationships of the graph are the \<open>HAS_EMISSIONS\<close> and \<open>HAS_TYPE\<close> relationships
  followed by one relationship for each date entry, in the order of the entries. Those of
  the entries of the group are one \<open>HAS_DATA\<close> relationship, from the EmissionType node of
  the pair to the first entry of the group, followed by the \<open>NEXT_DATE\<close> relationships
  from each entry of the group to the next one: one less than the size of the group. The
  dates of the group never increase along the chain, dates compared as strings; they
  decrease strictly when the dates of the group are pairwise distinct. When the external
  IDs of the entries of the group are pairwise distinct, no two relationships of the chain
  have the same target: the chain is a path, without a branch or a cycle.
\<close>

theorem reading_chain:
  assumes "csv_text rows"
    and "entries = surviving_entries pyfloat ss vt (header # rows)"
    and "grp = filter (in_group w t) entries"
    and "2 \<le> length grp"
  shows "\<exists>nodes other chain et_id.
           build_graph pyfloat ss vt (header # rows) = Inr (nodes, other @ chain) \<and>
           list_all (\<lambda>r. rel_type r = str ''HAS_EMISSIONS'' \<or> rel_type r = str ''HAS_TYPE'') other \<and>
           length chain = length entries \<and>
           generate_external_id w (str ''emission_type_'' @ t) [] = Inr et_id \<and>
           map (\<lambda>d. generate_external_id (entry_well_key d) (entry_emission_type d) (entry_date d))
               grp = map (\<lambda>d. Inr (entry_id d)) grp \<and>
           map snd (filter (\<lambda>dr. in_group w t (fst dr)) (zip entries chain)) =
             has_data_rel t et_id (entry_id (hd grp)) #
             next_date_rels t (entry_id (hd grp)) (map entry_id (tl grp)) \<and>
           length (next_date_rels t (entry_id (hd grp)) (map entry_id (tl grp))) =
             length grp - 1 \<and>
           sorted_wrt (\<lambda>a b. entry_date b \<le> entry_date a) grp \<and>
           (distinct (map entry_date grp) \<longrightarrow>
              sorted_wrt (\<lambda>a b. entry_date b < entry_date a) grp) \<and>
           (distinct (map entry_id grp) \<longrightarrow>
              distinct (map (\<lambda>r. ep_external_id (target r))
                 (map snd (filter (\<lambda>dr. in_group w t (fst dr)) (zip entries chain)))))"
proof -
  let ?G = "group_data_by_well (read_rows rows)"
  from build_graph_char[OF assms(1), of pyfloat ss vt header]
  obtain st :: "'a build_state" and chain where c: "collect pyfloat ss vt (header # rows) = Inr st"
    and st: "info_core (well_info st) = map well_core ?G"
      "emission_type_ids st = concat (map well_type_ids ?G)"
      "list_all entry_text (date_entries st)"
      "\<forall>d\<in>set (date_entries st). entry_well_key d \<in> set (wells rows) \<and>
                                    entry_emission_type d \<in> set emission_types"
      "chain_rels (emission_type_ids st) Map.empty (date_entries st) = Inr chain"
    and bg: "build_graph pyfloat ss vt (header # rows) =
             Inr (map well_node (info_core (well_info st)) @
                  map emissions_node (info_core (well_info st)) @
                  map emission_type_node (emission_type_ids st) @
                  map reading_node (date_entries st),
                  map has_emissions_rel (info_core (well_info st)) @
                  map has_type_rel (emission_type_ids st) @ chain)"
    by blast
  from collect_char[OF assms(1), of pyfloat ss vt header] c
  have srt: "date_entries st = sort_entries (concat (map (well_entries pyfloat ss vt) ?G))"
    by auto
  have en: "entries = date_entries st"
    by (simp add: assms(2) surviving_entries_def c)
  obtain d0 rest where g: "grp = d0 # rest"
    using assms(4) by (cases grp) auto
  have sub: "set grp \<subseteq> set (date_entries st)"
    unfolding assms(3) en by auto
  have d0: "d0 \<in> set (date_entries st)" "in_group w t d0"
    using g sub assms(3) by (auto simp: filter_eq_Cons_iff)
  then have w: "w \<in> set (wells rows)" and t: "t \<in> set emission_types"
    using st(4) by (auto simp: in_group_def)
  have tw: "unicode_text w" using wells_text[OF assms(1) w] .
  have gen: "generate_external_id w (str ''emission_type_'' @ t) [] =
               Inr (derive w (str ''emission_type_'' @ t) [])"
    using tw unicode_text_emission_types[OF t] by (intro generate_external_id_text) simp_all
  have m: "map_of (emission_type_ids st) (w, t) = Some (derive w (str ''emission_type_'' @ t) [])"
    unfolding st using w t by (intro map_of_well_type_ids) (simp_all add: wells_def)
  have ids: "map (\<lambda>d. generate_external_id (entry_well_key d) (entry_emission_type d) (entry_date d))
               grp = map (\<lambda>d. Inr (entry_id d)) grp"
  proof (rule map_cong[OF refl])
    fix d assume "d \<in> set grp"
    then have "entry_text d" using sub st(3) by (auto simp: list_all_iff)
    then show "generate_external_id (entry_well_key d) (entry_emission_type d) (entry_date d) =
                 Inr (entry_id d)"
      by (simp add: entry_text_def entry_id_def generate_external_id_text)
  qed
  have proj: "map snd (filter (\<lambda>dr. in_group w t (fst dr)) (zip entries chain)) =
                has_data_rel t (derive w (str ''emission_type_'' @ t) []) (entry_id (hd grp)) #
                next_date_rels t (entry_id (hd grp)) (map entry_id (tl grp))"
  proof -
    have f: "filter (in_group w t) (date_entries st) = d0 # rest"
      using assms(3) g en by simp
    show ?thesis
      using chain_rels_group[OF st(5), of w t]
      by (simp add: en m chain_of_def f g)
  qed
  have so: "sorted_wrt (\<lambda>a b. entry_date b \<le> entry_date a) grp"
    unfolding assms(3) en srt by (rule sort_entries_group_sorted)
  have other: "list_all (\<lambda>r. rel_type r = str ''HAS_EMISSIONS'' \<or> rel_type r = str ''HAS_TYPE'')
                 (map has_emissions_rel (info_core (well_info st)) @
                  map has_type_rel (emission_type_ids st))"
    by (auto simp: list_all_iff has_emissions_rel_def has_type_rel_def)
  show ?thesis
    apply (rule exI, rule exI[of _ "map has_emissions_rel (info_core (well_info st)) @
                  map has_type_rel (emission_type_ids st)"], rule exI[of _ chain],
        rule exI[of _ "derive w (str ''emission_type_'' @ t) []"])
    apply (intro conjI)
             apply (simp add: bg)
            apply (rule other)
           apply (simp add: en chain_rels_length[OF st(5)])
          apply (rule gen)
         apply (rule ids)
        apply (rule proj)
       apply (simp add: g)
      apply (rule so)
     apply (rule impI, rule sorted_wrt_strict[OF so], assumption)
    apply (simp only: proj)
    apply (simp add: g has_data_rel_def targets_next_date_rels)
    done
qed

lemma example_two_dates:
  "map entry_date
     (filter (in_group (str ''W1'') (str ''Flaring''))
        (surviving_entries example_float (str ''emissions.csv'') (str ''T'')
           [example_header, example_row, example_row_later])) =
   [str ''2024-03-16'', str ''2024-03-15'']"
  by (simp add: surviving_entries_def in_group_def build_eval example_row_def example_row_later_def)

text \<open>The theorem at two rows of one well, dated 2024-03-15 and 2024-03-16.\<close>

theorem reading_chain_witness:
  "csv_text [example_row, example_row_later] \<and>
   2 \<le> length (filter (in_group (str ''W1'') (str ''Flaring''))
                 (surviving_entries example_float (str ''emissions.csv'') (str ''T'')
                    [example_header, example_row, example_row_later])) \<and>
   map entry_date
     (filter (in_group (str ''W1'') (str ''Flaring''))
        (surviving_entries example_float (str ''emissions.csv'') (str ''T'')
           [example_header, example_row, example_row_later])) =
     [str ''2024-03-16'', str ''2024-03-15''] \<and>
   sorted_wrt (\<lambda>a b. entry_date b < entry_date a)
     (filter (in_group (str ''W1'') (str ''Flaring''))
        (surviving_entries example_float (str ''emissions.csv'') (str ''T'')
           [example_header, example_row, example_row_later]))"
proof -
  let ?entries = "surviving_entries example_float (str ''emissions.csv'') (str ''T'')
                    [example_header, example_row, example_row_later]"
  let ?grp = "filter (in_group (str ''W1'') (str ''Flaring'')) ?entries"
  have c: "csv_text [example_row, example_row_later]"
    by (simp add: csv_text_def example_row_def example_row_later_def)
  have "length (map entry_date ?grp) = 2" unfolding example_two_dates by simp
  then have l: "2 \<le> length ?grp" by simp
  have d: "distinct (map entry_date ?grp)"
    unfolding example_two_dates by (simp add: str_def)
  from reading_chain[OF c refl refl l] d
  have "sorted_wrt (\<lambda>a b. entry_date b < entry_date a) ?grp" by blast
  then show ?thesis using c l example_two_dates by simp
qed

text \<open>
  Claim C2 as stated fails: for two rows with the same well and date, the group has two
  entries with equal dates (not strictly descending) and equal IDs, and the last
  relationship is a \<open>NEXT_DATE\<close> from that Reading node to itself, a cycle.
\<close>

theorem duplicate_date_self_loop:
  "\<exists>nodes rels i.
     build_graph example_float (str ''emissions.csv'') (str ''T'')
         [example_header, example_row, example_row] = Inr (nodes, rels) \<and>
     generate_external_id (str ''W1'') (str ''Flaring'') (str ''2024-03-15'') = Inr i \<and>
     map entry_date
       (filter (in_group (str ''W1'') (str ''Flaring''))
          (surviving_entries example_float (str ''emissions.csv'') (str ''T'')
             [example_header, example_row, example_row])) =
       [str ''2024-03-15'', str ''2024-03-15''] \<and>
     last rels =
       \<lparr> source = \<lparr> ep_type = str ''Flaring'', ep_external_id = i \<rparr>,
         target = \<lparr> ep_type = str ''Flaring'', ep_external_id = i \<rparr>,
         rel_type = str ''NEXT_DATE'' \<rparr>"
  by (simp add: surviving_entries_def in_group_def build_eval example_row_def)

section \<open>Verification: the dispatcher\<close>

lemma tally_counts:
  "tally (c, f) rs =
     (c + length (filter (\<lambda>r. fst (snd r)) rs), f + length (filter (\<lambda>r. \<not> fst (snd r)) rs))"
  by (induction rs arbitrary: c f) auto

lemma tally_mset:
  assumes "mset rs' = mset rs"
  shows "tally (c, f) rs' = tally (c, f) rs"
proof -
  have "length (filter P rs') = length (filter P rs)" for P :: "batch_result \<Rightarrow> bool"
    using assms by (metis mset_filter size_mset)
  then show ?thesis by (simp add: tally_counts)
qed

lemma sink_sent: "\<not> debug_mode \<Longrightarrow> snd (sink debug_mode post batch) = [request_of batch]"
  by (cases batch) (simp_all add: sink_def create_nodes_batch_def create_relationships_batch_def request_of_def)

lemma process_batch_Inr:
  "fst (sink debug_mode post batch) = Inr j \<Longrightarrow>
   process_batch debug_mode post n tot batch = ((n, True, None), snd (sink debug_mode post batch))"
  by (cases "sink debug_mode post batch") (simp add: process_batch_def)

lemma process_batch_Inl:
  "fst (sink debug_mode post batch) = Inl e \<Longrightarrow>
   process_batch debug_mode post n tot batch = ((n, False, Some e), snd (sink debug_mode post batch))"
  by (cases "sink debug_mode post batch") (simp add: process_batch_def)

text \<open>
  Claim C5. In a dispatch round of three batches (not in debug mode, with a positive
  worker count) where the sink call of batch 2 raises and those of batches 1 and 3 return,
  all three batches are sent, and the round reports 2 completed and 1 failed, whatever the
  order in which the futures complete.
\<close>

theorem partial_failure_tally:
  assumes "\<not> debug_mode" and "0 < max_threads"
    and "make_batches batch_size items = Inr [(1, 3, b1), (2, 3, b2), (3, 3, b3)]"
    and "fst (sink debug_mode (net 1) (batch_type b1)) = Inr j1"
    and "fst (sink debug_mode (net 2) (batch_type b2)) = Inl e"
    and "fst (sink debug_mode (net 3) (batch_type b3)) = Inr j3"
    and "\<And>rs. mset (as_completed rs) = mset rs"
  shows "dispatch_round debug_mode batch_size max_threads net as_completed batch_type items =
           Inr (Some (2, 1),
                [request_of (batch_type b1), request_of (batch_type b2), request_of (batch_type b3)])"
proof -
  have ne: "items \<noteq> []"
  proof
    assume "items = []"
    then have "make_batches batch_size items = Inr [] \<or> make_batches batch_size items = Inl ValueError"
      by (simp add: make_batches_def)
    then show False using assms(3) by auto
  qed
  let ?rs = "[(1, True, None), (2, False, Some e), (3, True, None)] :: batch_result list"
  have t: "tally (0, 0) (as_completed ?rs) = (2, 1)"
    using tally_mset[OF assms(7), of 0 0 ?rs] by simp
  have pb: "process_batch debug_mode (net 1) 1 3 (batch_type b1) =
              ((1, True, None), [request_of (batch_type b1)])"
      "process_batch debug_mode (net 2) 2 3 (batch_type b2) =
              ((2, False, Some e), [request_of (batch_type b2)])"
      "process_batch debug_mode (net 3) 3 3 (batch_type b3) =
              ((3, True, None), [request_of (batch_type b3)])"
    using process_batch_Inr[OF assms(4)] process_batch_Inl[OF assms(5)]
      process_batch_Inr[OF assms(6)] sink_sent[OF assms(1)] by simp_all
  have w: "\<not> min max_threads (int (length [(1::nat, 3::nat, b1), (2, 3, b2), (3, 3, b3)])) \<le> 0"
    using assms(2) by simp
  show ?thesis
    unfolding dispatch_round_def assms(3) using ne w t
    by (simp add: pb del: One_nat_def)
qed


text \<open>
  The theorem on three one-node batches, the network refusing the connection of batch 2
  and the futures completing in reverse order.
\<close>

theorem partial_failure_tally_witness:
  "\<not> False \<and> (0::int) < 6 \<and>
   make_batches 1 [example_node (str ''a''), example_node (str ''b''), example_node (str ''c'')] =
     Inr [(1, 3, [example_node (str ''a'')]), (2, 3, [example_node (str ''b'')]),
          (3, 3, [example_node (str ''c'')])] \<and>
   fst (sink False (example_net 1) (NodesBatch [example_node (str ''a'')])) = Inr (JObj []) \<and>
   fst (sink False (example_net 2) (NodesBatch [example_node (str ''b'')])) = Inl ConnectionError \<and>
   fst (sink False (example_net 3) (NodesBatch [example_node (str ''c'')])) = Inr (JObj []) \<and>
   (\<forall>rs :: batch_result list. mset (rev rs) = mset rs) \<and>
   dispatch_round False 1 6 example_net rev NodesBatch
       [example_node (str ''a''), example_node (str ''b''), example_node (str ''c'')] =
     Inr (Some (2, 1),
          [PostNodes [example_node (str ''a'')], PostNodes [example_node (str ''b'')],
           PostNodes [example_node (str ''c'')]])"
proof -
  let ?items = "[example_node (str ''a''), example_node (str ''b''), example_node (str ''c'')]"
  have b: "make_batches 1 ?items =
             Inr [(1, 3, [example_node (str ''a'')]), (2, 3, [example_node (str ''b'')]),
                  (3, 3, [example_node (str ''c'')])]"
    by (simp add: make_batches_def upt_rec)
  have s1: "fst (sink False (example_net 1) (NodesBatch [example_node (str ''a'')])) = Inr (JObj [])"
    and s2: "fst (sink False (example_net 2) (NodesBatch [example_node (str ''b'')])) = Inl ConnectionError"
    and s3: "fst (sink False (example_net 3) (NodesBatch [example_node (str ''c'')])) = Inr (JObj [])"
    by (simp_all add: sink_def create_nodes_batch_def example_net_def raise_for_status_def)
  have m: "\<And>rs :: batch_result list. mset (rev rs) = mset rs" by simp
  have "dispatch_round False 1 6 example_net rev NodesBatch ?items =
          Inr (Some (2, 1),
               [request_of (NodesBatch [example_node (str ''a'')]),
                request_of (NodesBatch [example_node (str ''b'')]),
                request_of (NodesBatch [example_node (str ''c'')])])"
    by (rule partial_failure_tally[OF _ _ b s1 s2 s3 m]) simp_all
  then show ?thesis using b s1 s2 s3 by (simp add: request_of_def)
qed

lemma make_batches_positive:
  assumes "0 < batch_size" and "items \<noteq> []"
  shows "\<exists>batches. make_batches batch_size items = Inr batches \<and> batches \<noteq> [] \<and>
           length batches = (length items + nat batch_size - 1) div nat batch_size"
proof -
  let ?b = "nat batch_size"
  have b: "0 < ?b" using assms(1) by simp
  have "?b \<le> length items + ?b - 1" using assms(2) by (cases items) auto
  then have "0 < (length items + ?b - 1) div ?b" using b by (simp add: div_greater_zero_iff)
  then show ?thesis using assms(1) by (auto simp: make_batches_def)
qed

lemma process_batch_fst:
  "fst (process_batch debug_mode post n tot batch) =
     (n, \<not> isl (fst (sink debug_mode post batch)),
      (case fst (sink debug_mode post batch) of Inl e \<Rightarrow> Some e | Inr j \<Rightarrow> None))"
  by (cases "sink debug_mode post batch"; cases "fst (sink debug_mode post batch)")
     (simp_all add: process_batch_def)

lemma dispatch_round_tally:
  assumes "items \<noteq> []" and "make_batches batch_size items = Inr batches" and "batches \<noteq> []"
    and "0 < max_threads" and "\<And>rs. mset (as_completed rs) = mset rs"
  shows "\<exists>sent. dispatch_round debug_mode batch_size max_threads net as_completed batch_type items =
           Inr (Some (length (filter (batch_ok debug_mode net batch_type) batches),
                      length (filter (\<lambda>b. \<not> batch_ok debug_mode net batch_type b) batches)),
                sent)"
proof -
  let ?out = "map (\<lambda>(batch_num, total_batches, batch).
                     process_batch debug_mode (net batch_num) batch_num total_batches (batch_type batch))
                  batches"
  have w: "\<not> min max_threads (int (length batches)) \<le> 0"
    using assms(3,4) by (cases batches) auto
  have f: "length (filter (\<lambda>r. P (fst (snd r))) (map fst ?out)) =
           length (filter (\<lambda>b. P (batch_ok debug_mode net batch_type b)) batches)" for P
    by (induction batches) (auto simp: process_batch_fst batch_ok_def)
  have "tally (0, 0) (as_completed (map fst ?out)) = tally (0, 0) (map fst ?out)"
    by (rule tally_mset[OF assms(5)])
  also have "\<dots> = (length (filter (batch_ok debug_mode net batch_type) batches),
                     length (filter (\<lambda>b. \<not> batch_ok debug_mode net batch_type b) batches))"
    using f[of "\<lambda>x. x"] f[of Not] by (simp add: tally_counts)
  finally show ?thesis
    using assms(1,2) w by (simp add: dispatch_round_def)
qed

text \<open>
  Claim C6, as amended. Outside debug mode a batch fails, with its request sent, when
  \<open>requests.post\<close> raises, when the response has a status from 400 to 599, and when the
  body of a response with another status does not decode. No failure aborts the round: with
  positive batch size and worker count the round returns its tally, the batches whose sink
  call returned and the batches whose sink call raised.
\<close>

theorem error_status_is_chunk_failure:
  assumes "\<not> debug_mode"
  shows "(post (request_of batch) = Inl e \<longrightarrow>
            process_batch debug_mode post n tot batch = ((n, False, Some e), [request_of batch])) \<and>
         (post (request_of batch) = Inr r \<and> 400 \<le> status_code r \<and> status_code r < 600 \<longrightarrow>
            process_batch debug_mode post n tot batch =
              ((n, False, Some HTTPError), [request_of batch])) \<and>
         (post (request_of batch) = Inr r \<and> \<not> (400 \<le> status_code r \<and> status_code r < 600) \<and>
          body r = None \<longrightarrow>
            process_batch debug_mode post n tot batch =
              ((n, False, Some JSONDecodeError), [request_of batch])) \<and>
         (0 < batch_size \<and> 0 < max_threads \<and> items \<noteq> [] \<and>
          (\<forall>rs. mset (as_completed rs) = mset rs) \<longrightarrow>
            (\<exists>batches sent.
               make_batches batch_size items = Inr batches \<and>
               dispatch_round debug_mode batch_size max_threads net as_completed batch_type items =
                 Inr (Some (length (filter (batch_ok debug_mode net batch_type) batches),
                            length (filter (\<lambda>b. \<not> batch_ok debug_mode net batch_type b) batches)),
                      sent)))"
proof (intro conjI impI)
  assume "post (request_of batch) = Inl e"
  then show "process_batch debug_mode post n tot batch = ((n, False, Some e), [request_of batch])"
    using assms
    by (cases batch)
       (simp_all add: process_batch_def sink_def create_nodes_batch_def
          create_relationships_batch_def request_of_def)
next
  assume "post (request_of batch) = Inr r \<and> 400 \<le> status_code r \<and> status_code r < 600"
  then show "process_batch debug_mode post n tot batch =
               ((n, False, Some HTTPError), [request_of batch])"
    using assms
    by (cases batch)
       (simp_all add: process_batch_def sink_def create_nodes_batch_def
          create_relationships_batch_def request_of_def raise_for_status_def)
next
  assume "post (request_of batch) = Inr r \<and> \<not> (400 \<le> status_code r \<and> status_code r < 600) \<and>
          body r = None"
  then show "process_batch debug_mode post n tot batch =
               ((n, False, Some JSONDecodeError), [request_of batch])"
    using assms
    by (cases batch)
       (auto simp add: process_batch_def sink_def create_nodes_batch_def
          create_relationships_batch_def request_of_def raise_for_status_def)
next
  assume a: "0 < batch_size \<and> 0 < max_threads \<and> items \<noteq> [] \<and>
             (\<forall>rs. mset (as_completed rs) = mset rs)"
  then obtain batches where b: "make_batches batch_size items = Inr batches" "batches \<noteq> []"
    using make_batches_positive[of batch_size items] by auto
  from dispatch_round_tally[OF _ b, of max_threads as_completed debug_mode net batch_type] a
  show "\<exists>batches sent.
          make_batches batch_size items = Inr batches \<and>
          dispatch_round debug_mode batch_size max_threads net as_completed batch_type items =
            Inr (Some (length (filter (batch_ok debug_mode net batch_type) batches),
                       length (filter (\<lambda>b. \<not> batch_ok debug_mode net batch_type b) batches)),
                 sent)"
    using b(1) by auto
qed

text \<open>The theorem at a 503 response, and at a round of two batches.\<close>

theorem error_status_is_chunk_failure_witness:
  "\<not> False \<and>
   process_batch False (\<lambda>req. Inr \<lparr> status_code = 503, body = Some (JObj []) \<rparr>) 2 3
       (NodesBatch [example_node (str ''b'')]) =
     ((2, False, Some HTTPError), [PostNodes [example_node (str ''b'')]]) \<and>
   (\<exists>batches sent.
      make_batches 1 [example_node (str ''a''), example_node (str ''b'')] = Inr batches \<and>
      dispatch_round False 1 6 example_net rev NodesBatch
          [example_node (str ''a''), example_node (str ''b'')] =
        Inr (Some (length (filter (batch_ok False example_net NodesBatch) batches),
                   length (filter (\<lambda>b. \<not> batch_ok False example_net NodesBatch b) batches)),
             sent))"
  using error_status_is_chunk_failure[where debug_mode = False
      and post = "\<lambda>req. Inr \<lparr> status_code = 503, body = Some (JObj []) \<rparr>"
      and batch = "NodesBatch [example_node (str ''b'')]"
      and r = "\<lparr> status_code = 503, body = Some (JObj []) \<rparr>" and n = 2 and tot = 3
      and batch_size = 1 and max_threads = 6 and as_completed = rev and net = example_net
      and batch_type = NodesBatch
      and items = "[example_node (str ''a''), example_node (str ''b'')]"]
  by (simp add: request_of_def)

text \<open>
  Claim C6 as stated fails: a response with status 300 and a JSON body is not in the 2xx
  range, \<open>raise_for_status\<close> does not raise for it, and the batch is counted as completed.
\<close>

theorem redirect_status_counted_completed:
  "process_batch False (\<lambda>req. Inr \<lparr> status_code = 300, body = Some (JObj []) \<rparr>) 1 1
       (NodesBatch [example_node (str ''a'')]) =
     ((1, True, None), [PostNodes [example_node (str ''a'')]]) \<and>
   dispatch_round False 250 6 (\<lambda>n req. Inr \<lparr> status_code = 300, body = Some (JObj []) \<rparr>) rev NodesBatch
       [example_node (str ''a'')] =
     Inr (Some (1, 0), [PostNodes [example_node (str ''a'')]])"
  by (simp add: process_batch_def sink_def create_nodes_batch_def raise_for_status_def
        dispatch_round_def make_batches_def upt_rec)

section \<open>Verification: the replay tool\<close>

text \<open>
  Claim C4 as stated fails. The empty array is (vacuously) an array of dicts each having
  source, target and type, and it is not classified. An array of one dict that has source,
  target and type, and external_id and properties too, is classified as nodes. The array
  of a relationship dict and the number 5 matches none of the shapes of the claim, and it
  is classified by its first element and posted, with exit code 0.
\<close>

theorem detect_type_counterexample:
  "claimed_relationships (JArr []) \<and> detect_type (JArr []) = None \<and>
   claimed_relationships (JArr [example_node_and_relationship]) \<and>
   detect_type (JArr [example_node_and_relationship]) = Some Nodes \<and>
   \<not> claimed_relationships (JArr [example_relationship, JNum 5]) \<and>
   \<not> claimed_nodes (JArr [example_relationship, JNum 5]) \<and>
   main (example_env (JArr [example_relationship, JNum 5])) =
     (0, [ReplayRelationships (JArr [example_relationship, JNum 5])])"
  by (simp add: claimed_relationships_def claimed_nodes_def is_relationship_dict_def is_node_dict_def
        example_relationship_def example_node_and_relationship_def example_env_def main_def
        has_key_def str_def post_relationships_def relationship_count_def)

text \<open>
  Claim C4, as amended. A list is classified by its first element only. A document is
  classified as nodes exactly when it is a dict with a \<open>nodes\<close> list, or a dict with
  \<open>external_id\<close> and \<open>type\<close>, or a non-empty list whose first element is a dict with
  \<open>external_id\<close>, \<open>type\<close> and \<open>properties\<close>; as relationships exactly when it is a non-empty
  list whose first element is a dict with \<open>source\<close>, \<open>target\<close> and \<open>type\<close> that is not such
  a node dict. When no explicit type is given and the document is not classified, \<open>main\<close>
  sends nothing and returns 1.
\<close>

theorem detect_type_first_item:
  "(detect_type data = Some Nodes \<longleftrightarrow>
      (\<exists>d. data = JObj d \<and>
           ((has_key d (str ''nodes'') \<and> is_list (map_of d (str ''nodes''))) \<or>
            (has_key d (str ''external_id'') \<and> has_key d (str ''type'')))) \<or>
      (\<exists>first_item rest. data = JArr (first_item # rest) \<and> is_node_dict first_item)) \<and>
   (detect_type data = Some Relationships \<longleftrightarrow>
      (\<exists>first_item rest. data = JArr (first_item # rest) \<and> \<not> is_node_dict first_item \<and>
                         is_relationship_dict first_item)) \<and>
   (explicit_type env = None \<and> loaded env = Inr data \<and> detect_type data = None \<longrightarrow>
      main env = (1, []))"
proof (intro conjI impI)
  show "detect_type data = Some Nodes \<longleftrightarrow>
      (\<exists>d. data = JObj d \<and>
           ((has_key d (str ''nodes'') \<and> is_list (map_of d (str ''nodes''))) \<or>
            (has_key d (str ''external_id'') \<and> has_key d (str ''type'')))) \<or>
      (\<exists>first_item rest. data = JArr (first_item # rest) \<and> is_node_dict first_item)"
    by (cases data rule: detect_type.cases) (auto simp: is_node_dict_def)
  show "detect_type data = Some Relationships \<longleftrightarrow>
      (\<exists>first_item rest. data = JArr (first_item # rest) \<and> \<not> is_node_dict first_item \<and>
                         is_relationship_dict first_item)"
    by (cases data rule: detect_type.cases) (auto simp: is_node_dict_def is_relationship_dict_def)
  assume "explicit_type env = None \<and> loaded env = Inr data \<and> detect_type data = None"
  then show "main env = (1, [])" by (simp add: main_def)
qed

text \<open>
  The theorem at the empty object (not classified: exit code 1, nothing sent) and at a
  list whose first element is a relationship dict.
\<close>

theorem detect_type_first_item_witness:
  "explicit_type (example_env (JObj [])) = None \<and> loaded (example_env (JObj [])) = Inr (JObj []) \<and>
   detect_type (JObj []) = None \<and> main (example_env (JObj [])) = (1, []) \<and>
   detect_type (JArr [example_relationship, JNum 5]) = Some Relationships"
proof -
  have h: "explicit_type (example_env (JObj [])) = None" "loaded (example_env (JObj [])) = Inr (JObj [])"
    by (simp_all add: example_env_def)
  have d: "detect_type (JObj []) = None"
    by (simp add: has_key_def)
  have n: "\<not> is_node_dict example_relationship" "is_relationship_dict example_relationship"
    by (simp_all add: is_node_dict_def is_relationship_dict_def example_relationship_def has_key_def
          str_def)
  note t = detect_type_first_item[of "JObj []" "example_env (JObj [])"]
  note u = detect_type_first_item[of "JArr [example_relationship, JNum 5]"]
  have "main (example_env (JObj [])) = (1, [])" using t h d by blast
  moreover have "detect_type (JArr [example_relationship, JNum 5]) = Some Relationships"
    using u n by blast
  ultimately show ?thesis using h d by simp
qed


end
